theory Spec2Isabelle
  imports Complex_Main "HOL-Library.Word"
begin

section \<open>Data model (package models)\<close>

text \<open>
  Instants (Go \<^verbatim>\<open>time.Time\<close>) are integers, in nanoseconds. Identifiers are Go
  \<^verbatim>\<open>int64\<close> values assigned by the AUTOINCREMENT primary keys; they are modelled as
  unbounded integers. Go strings are byte strings, so \<open>length\<close> is Go's \<^verbatim>\<open>len\<close>.
\<close>

type_synonym time = int

record User =
  u_ID :: int
  u_Username :: string
  u_PasswordHash :: string
  u_APIToken :: string
  u_CreatedAt :: time
  u_UpdatedAt :: time

record Peer =
  p_ID :: int
  p_Name :: string
  p_PublicKey :: string
  p_PrivateKey :: string
  p_AssignedIP :: string
  p_Enabled :: bool
  p_CreatedAt :: time
  p_UpdatedAt :: time

record RefreshToken =
  rt_ID :: int
  rt_UserID :: int
  rt_Token :: string
  rt_ExpiresAt :: time
  rt_CreatedAt :: time

text \<open>Every Go \<^verbatim>\<open>error\<close> value the modelled code can return.\<close>

datatype error =
    ErrNoRows
  | ErrStorage
  | ErrConstraint
  | ErrNoAvailableIP
  | ErrInvalidPublicKey
  | ErrInvalidIP
  | ErrAddPeer
  | ErrRemovePeer
  | ErrSaveConfig
  | ErrInvalidToken
  | ErrExpiredToken
  | ErrInvalidPassword
  | ErrRand
  | ErrSign
  | ErrBcrypt

section \<open>The storage engine (package db)\<close>

text \<open>
  The SQLite database is a record of its tables, each a list of rows in insertion order,
  with the AUTOINCREMENT counters. The table \<^verbatim>\<open>connection_logs\<close> is left out: no
  modelled operation reads it.

  A statement can fail for a reason that lies in the tables (no row, a UNIQUE column) or
  because the engine reports an error (I/O, a busy or locked file). The second kind is
  an input of the model: every statement takes a flag that says whether the engine fails
  it, and a failed statement changes nothing. A request names its statements by the
  places of the type \<open>site\<close>. Where the source returns the error of a statement, the
  operation fails with it; where the source drops the error, the operation goes on.
\<close>

datatype site =
    KeyGen
  | QueryAssignedIPs
  | InsertPeer
  | LastInsertId
  | SelectPeerByID
  | SelectPeerByIP
  | ReselectPeerByIP
  | UpdatePeerName
  | UpdatePeerEnabled
  | DeletePeerRow
  | RowsAffected
  | WgSet
  | WgQuickSave
  | SelectUserByID
  | SelectUserByUsername
  | SelectUserByAPIToken
  | UpdateAPIToken
  | UpdatePassword
  | InsertRefreshToken
  | SelectRefreshToken
  | DeleteRefreshTokenRow
  | DeleteUserTokens
  | SetDNS
  | SetAllowedIPs
  | SetLogging
  | SignAccessToken
  | RandRead
  | BcryptHash

record Database =
  users :: "User list"
  peers :: "Peer list"
  refresh_tokens :: "RefreshToken list"
  settings :: "(string \<times> string) list"
  user_seq :: int
  peer_seq :: int
  token_seq :: int

subsection \<open>Decimal output (\<^verbatim>\<open>%d\<close> of \<^verbatim>\<open>fmt.Sprintf\<close>)\<close>

definition digit_char :: "nat \<Rightarrow> char" where
  "digit_char n = ''0123456789'' ! n"

fun digits10 :: "nat \<Rightarrow> string" where
  "digits10 n = (if n < 10 then [digit_char n] else digits10 (n div 10) @ [digit_char (n mod 10)])"

declare digits10.simps [simp del]

definition itoa :: "int \<Rightarrow> string" where
  "itoa i = (if i < 0 then CHR ''-'' # digits10 (nat (- i)) else digits10 (nat i))"

text \<open>Reading a decimal numeral back: used to show that \<open>itoa\<close> is injective.\<close>

definition digit_val :: "char \<Rightarrow> nat" where
  "digit_val c = of_char c - 48"

definition undigits :: "string \<Rightarrow> nat" where
  "undigits s = foldl (\<lambda>a c. 10 * a + digit_val c) 0 s"

text \<open>\<^verbatim>\<open>fmt.Sprintf("%d.%d.%d.%d", o1, o2, o3, i)\<close>\<close>

definition sprintf_ip :: "int \<Rightarrow> int \<Rightarrow> int \<Rightarrow> int \<Rightarrow> string" where
  "sprintf_ip o1 o2 o3 i = itoa o1 @ ''.'' @ itoa o2 @ ''.'' @ itoa o3 @ ''.'' @ itoa i"

subsection \<open>GetNextAvailableIP\<close>

text \<open>
  The loop that cuts the subnet at its last \<^verbatim>\<open>/\<close>: it runs only when the string has
  at least two bytes, from the last index down, and stops at the first \<^verbatim>\<open>/\<close> it meets.
\<close>

fun cut_at_last_slash :: "string \<Rightarrow> nat \<Rightarrow> string" where
  "cut_at_last_slash s 0 = (if s ! 0 = CHR ''/'' then take 0 s else s)"
| "cut_at_last_slash s (Suc i) =
     (if s ! Suc i = CHR ''/'' then take (Suc i) s else cut_at_last_slash s i)"

definition base_of_subnet :: "string \<Rightarrow> string" where
  "base_of_subnet subnet =
     (if length subnet - 1 > 0 then cut_at_last_slash subnet (length subnet - 1) else subnet)"

text \<open>
  The search \<^verbatim>\<open>for i := 2; i < 255; i++\<close> over the set of the addresses in use.
\<close>

function find_free :: "(int \<Rightarrow> string) \<Rightarrow> string set \<Rightarrow> int \<Rightarrow> error + string" where
  "find_free fmt usedIPs i =
     (if i < 255
      then (if fmt i \<notin> usedIPs then Inr (fmt i) else find_free fmt usedIPs (i + 1))
      else Inl ErrNoAvailableIP)"
  by pat_completeness auto
termination
  by (relation "measure (\<lambda>(fmt, usedIPs, i). nat (255 - i))") auto

declare find_free.simps [simp del]

text \<open>
  \<^verbatim>\<open>fmt.Sscanf(baseIP, "%d.%d.%d.%d", &o1, &o2, &o3, &o4)\<close> is the library's; the model
  takes it as the parameter \<open>sscanf\<close>, which gives the four integers the call leaves in
  its arguments (its error is ignored by the source). The query
  \<^verbatim>\<open>SELECT assigned_ip FROM peers\<close> fails as a whole when the engine fails it (at
  Query, at a Scan or at rows.Err: three returns with the same result).
\<close>

definition usedIPs :: "Database \<Rightarrow> string set" where
  "usedIPs d = set (map p_AssignedIP (peers d))"

definition GetNextAvailableIP ::
  "(string \<Rightarrow> int \<times> int \<times> int \<times> int) \<Rightarrow> bool \<Rightarrow> Database \<Rightarrow> string \<Rightarrow> error + string" where
  "GetNextAvailableIP sscanf fault d subnet =
     (case sscanf (base_of_subnet subnet) of (o1, o2, o3, o4) \<Rightarrow>
        if fault then Inl ErrStorage
        else find_free (sprintf_ip o1 o2 o3) (usedIPs d) 2)"

section \<open>Library functions and the environment of a request\<close>

text \<open>
  Functions of Go's libraries that the repository calls are parameters of the model,
  collected in one record; every theorem holds for all of them.
  \<^item> \<open>sscanf_ip\<close>: \<^verbatim>\<open>fmt.Sscanf(s, "%d.%d.%d.%d", ...)\<close>, the four integers it leaves.
  \<^item> \<open>b64_decoded_len\<close>: \<^verbatim>\<open>base64.StdEncoding.DecodeString\<close>, the number of bytes
    decoded, or \<open>None\<close> for its error.
  \<^item> \<open>hmac_sha256 key msg\<close>: the HMAC-SHA256 digest, a 256-bit value (32 bytes).
  \<^item> \<open>bcrypt_matches hash password\<close>: \<^verbatim>\<open>bcrypt.CompareHashAndPassword\<close> returns nil.
  \<^item> \<open>jwt_parse secret now token\<close>: \<^verbatim>\<open>jwt.ParseWithClaims\<close> with the key function of
    \<^verbatim>\<open>ValidateAccessToken\<close>.
\<close>

record Claims =
  c_UserID :: int
  c_Username :: string

datatype jwt_result =
    JwtExpired
  | JwtError
  | JwtParsed Claims bool

record Lib =
  sscanf_ip :: "string \<Rightarrow> int \<times> int \<times> int \<times> int"
  b64_decoded_len :: "string \<Rightarrow> nat option"
  hmac_sha256 :: "string \<Rightarrow> string \<Rightarrow> 256 word"
  bcrypt_matches :: "string \<Rightarrow> string \<Rightarrow> bool"
  jwt_parse :: "string \<Rightarrow> time \<Rightarrow> string \<Rightarrow> jwt_result"

text \<open>
  What one request meets outside the program: which statements and commands fail
  (\<open>fails\<close>), the clock, and the values the random source, the signer and bcrypt
  produce in it.
\<close>

record Env =
  fails :: "site \<Rightarrow> bool"
  now :: time
  keypair :: "string \<times> string"
  fresh_token :: string
  signed_token :: string
  password_hash :: string

record Config =
  Interface :: string
  Subnet :: string
  DNS :: string
  AllowedIPs :: string
  AccessSecret :: string
  AccessExpiryMinutes :: int
  RefreshExpiryDays :: int
  AdminUsername :: string

section \<open>The live interface (package wgmanager)\<close>

text \<open>
  The external tool is run with an argument vector; \<open>argv\<close> gives the vector of each
  command the manager issues. The running interface is the list of its peers (public
  key, allowed-ips), \<open>saved\<close> is the configuration \<^verbatim>\<open>wg-quick save\<close> wrote last, and
  \<open>calls\<close> records every invocation with whether it succeeded. A command that succeeds
  has the effect its manual page states; one that fails changes nothing.
\<close>

datatype wg_cmd =
    WgSetPeer string string string
  | WgRemovePeer string string
  | WgQuickSaveCmd string

fun argv :: "wg_cmd \<Rightarrow> string list" where
  "argv (WgSetPeer ifc key allowed) = [''wg'', ''set'', ifc, ''peer'', key, ''allowed-ips'', allowed]"
| "argv (WgRemovePeer ifc key) = [''wg'', ''set'', ifc, ''peer'', key, ''remove'']"
| "argv (WgQuickSaveCmd ifc) = [''wg-quick'', ''save'', ifc]"

record Iface =
  live :: "(string \<times> string) list"
  saved :: "(string \<times> string) list"
  calls :: "(wg_cmd \<times> bool) list"

fun effect :: "wg_cmd \<Rightarrow> Iface \<Rightarrow> Iface" where
  "effect (WgSetPeer ifc key allowed) g =
     g\<lparr>live := (key, allowed) # filter (\<lambda>e. fst e \<noteq> key) (live g)\<rparr>"
| "effect (WgRemovePeer ifc key) g = g\<lparr>live := filter (\<lambda>e. fst e \<noteq> key) (live g)\<rparr>"
| "effect (WgQuickSaveCmd ifc) g = g\<lparr>saved := live g\<rparr>"

definition run :: "bool \<Rightarrow> wg_cmd \<Rightarrow> Iface \<Rightarrow> bool \<times> Iface" where
  "run fault c g =
     (if fault then (False, g\<lparr>calls := calls g @ [(c, False)]\<rparr>)
      else (True, (effect c g)\<lparr>calls := calls g @ [(c, True)]\<rparr>))"

definition GenerateKeyPair :: "Env \<Rightarrow> error + string \<times> string" where
  "GenerateKeyPair env = (if fails env KeyGen then Inl ErrRand else Inr (keypair env))"

definition ValidatePublicKey :: "Lib \<Rightarrow> string \<Rightarrow> bool" where
  "ValidatePublicKey L key =
     (case b64_decoded_len L key of None \<Rightarrow> False | Some n \<Rightarrow> n = 32)"

text \<open>\<^verbatim>\<open>strings.Split(s, ".")\<close>\<close>

fun split_on :: "char \<Rightarrow> string \<Rightarrow> string list" where
  "split_on c [] = [[]]"
| "split_on c (x # xs) =
     (if x = c then [] # split_on c xs
      else (case split_on c xs of [] \<Rightarrow> [[x]] | p # ps \<Rightarrow> (x # p) # ps))"

definition is_digit :: "char \<Rightarrow> bool" where
  "is_digit c = (c \<in> set ''0123456789'')"

text \<open>
  The pattern \<^verbatim>\<open>^(\d{1,3}\.){3}\d{1,3}$\<close>: a digit is never a dot, so a string matches
  exactly when cutting it at its dots gives four parts of one to three digits.
\<close>

definition ipRegex_MatchString :: "string \<Rightarrow> bool" where
  "ipRegex_MatchString s =
     (length (split_on CHR ''.'' s) = 4 \<and>
      list_all (\<lambda>p. 1 \<le> length p \<and> length p \<le> 3 \<and> list_all is_digit p) (split_on CHR ''.'' s))"

text \<open>
  On a part of one to three digits \<^verbatim>\<open>strconv.Atoi\<close> returns its decimal value
  (\<open>undigits\<close>) and no error, and the value is not negative: of the loop's three tests
  only \<^verbatim>\<open>num > 255\<close> can hold.
\<close>

definition ValidateIP :: "string \<Rightarrow> bool" where
  "ValidateIP ip =
     (if \<not> ipRegex_MatchString ip then False
      else list_all (\<lambda>part. \<not> 255 < undigits part) (split_on CHR ''.'' ip))"

definition SaveConfig :: "(site \<Rightarrow> bool) \<Rightarrow> Config \<Rightarrow> Iface \<Rightarrow> error option \<times> Iface" where
  "SaveConfig f cfg g =
     (case run (f WgQuickSave) (WgQuickSaveCmd (Interface cfg)) g of
        (ok, g1) \<Rightarrow> (if ok then (None, g1) else (Some ErrSaveConfig, g1)))"

definition AddPeer ::
  "Lib \<Rightarrow> (site \<Rightarrow> bool) \<Rightarrow> Config \<Rightarrow> Iface \<Rightarrow> string \<Rightarrow> string \<Rightarrow> error option \<times> Iface" where
  "AddPeer L f cfg g publicKey assignedIP =
     (if \<not> ValidatePublicKey L publicKey then (Some ErrInvalidPublicKey, g)
      else if \<not> ValidateIP assignedIP then (Some ErrInvalidIP, g)
      else (case run (f WgSet) (WgSetPeer (Interface cfg) publicKey (assignedIP @ ''/32'')) g of
              (ok, g1) \<Rightarrow>
                if \<not> ok then (Some ErrAddPeer, g1)
                else (case SaveConfig f cfg g1 of
                        (Some e, g2) \<Rightarrow> (Some ErrSaveConfig, g2)
                      | (None, g2) \<Rightarrow> (None, g2))))"

definition RemovePeer ::
  "Lib \<Rightarrow> (site \<Rightarrow> bool) \<Rightarrow> Config \<Rightarrow> Iface \<Rightarrow> string \<Rightarrow> error option \<times> Iface" where
  "RemovePeer L f cfg g publicKey =
     (if \<not> ValidatePublicKey L publicKey then (Some ErrInvalidPublicKey, g)
      else (case run (f WgSet) (WgRemovePeer (Interface cfg) publicKey) g of
              (ok, g1) \<Rightarrow>
                if \<not> ok then (Some ErrRemovePeer, g1)
                else (case SaveConfig f cfg g1 of
                        (Some e, g2) \<Rightarrow> (Some ErrSaveConfig, g2)
                      | (None, g2) \<Rightarrow> (None, g2))))"

section \<open>Peer rows (package db)\<close>

definition GetPeerByID :: "bool \<Rightarrow> Database \<Rightarrow> int \<Rightarrow> error + Peer" where
  "GetPeerByID fault d i =
     (if fault then Inl ErrStorage
      else (case find (\<lambda>p. p_ID p = i) (peers d) of None \<Rightarrow> Inl ErrNoRows | Some p \<Rightarrow> Inr p))"

definition GetPeerByIP :: "bool \<Rightarrow> Database \<Rightarrow> string \<Rightarrow> error + Peer" where
  "GetPeerByIP fault d ip =
     (if fault then Inl ErrStorage
      else (case find (\<lambda>p. p_AssignedIP p = ip) (peers d) of
              None \<Rightarrow> Inl ErrNoRows | Some p \<Rightarrow> Inr p))"

text \<open>
  \<^verbatim>\<open>INSERT INTO peers\<close>: the columns \<^verbatim>\<open>public_key\<close> and \<^verbatim>\<open>assigned_ip\<close> are UNIQUE;
  the row gets the next AUTOINCREMENT id and the current time. Then the id is read
  (\<^verbatim>\<open>LastInsertId\<close>) and the row is read back (\<^verbatim>\<open>GetPeerByID\<close>): three statements,
  each with its own error return, and no transaction around them.
\<close>

definition DB_CreatePeer ::
  "(site \<Rightarrow> bool) \<Rightarrow> time \<Rightarrow> Database \<Rightarrow> Peer \<Rightarrow> (error + Peer) \<times> Database" where
  "DB_CreatePeer f t d peer =
     (if f InsertPeer then (Inl ErrStorage, d)
      else if list_ex (\<lambda>q. p_PublicKey q = p_PublicKey peer \<or> p_AssignedIP q = p_AssignedIP peer)
                (peers d)
      then (Inl ErrConstraint, d)
      else (let i = peer_seq d + 1;
                row = peer\<lparr>p_ID := i, p_CreatedAt := t, p_UpdatedAt := t\<rparr>;
                d1 = d\<lparr>peers := peers d @ [row], peer_seq := i\<rparr>
            in if f LastInsertId then (Inl ErrStorage, d1)
               else (GetPeerByID (f SelectPeerByID) d1 i, d1)))"

definition DB_UpdatePeer ::
  "(site \<Rightarrow> bool) \<Rightarrow> time \<Rightarrow> Database \<Rightarrow> string \<Rightarrow> string option \<Rightarrow> bool option
     \<Rightarrow> (error + Peer) \<times> Database" where
  "DB_UpdatePeer f t d ip name enabled =
     (if name \<noteq> None \<and> f UpdatePeerName then (Inl ErrStorage, d)
      else (let d1 = (case name of
                        None \<Rightarrow> d
                      | Some n \<Rightarrow>
                          d\<lparr>peers := map (\<lambda>p. if p_AssignedIP p = ip
                                               then p\<lparr>p_Name := n, p_UpdatedAt := t\<rparr> else p)
                                         (peers d)\<rparr>)
            in if enabled \<noteq> None \<and> f UpdatePeerEnabled then (Inl ErrStorage, d1)
               else (let d2 = (case enabled of
                                 None \<Rightarrow> d1
                               | Some b \<Rightarrow>
                                   d1\<lparr>peers := map (\<lambda>p. if p_AssignedIP p = ip
                                                         then p\<lparr>p_Enabled := b, p_UpdatedAt := t\<rparr>
                                                         else p)
                                                   (peers d1)\<rparr>)
                     in (GetPeerByIP (f ReselectPeerByIP) d2 ip, d2))))"

text \<open>
  \<^verbatim>\<open>DELETE FROM peers WHERE assigned_ip = ?\<close>, then \<^verbatim>\<open>RowsAffected\<close>; no row
  affected is \<^verbatim>\<open>sql.ErrNoRows\<close>.
\<close>

definition DB_DeletePeer ::
  "(site \<Rightarrow> bool) \<Rightarrow> Database \<Rightarrow> string \<Rightarrow> error option \<times> Database" where
  "DB_DeletePeer f d ip =
     (if f DeletePeerRow then (Some ErrStorage, d)
      else (let rowsAffected = length (filter (\<lambda>p. p_AssignedIP p = ip) (peers d));
                d1 = d\<lparr>peers := filter (\<lambda>p. p_AssignedIP p \<noteq> ip) (peers d)\<rparr>
            in if f RowsAffected then (Some ErrStorage, d1)
               else if rowsAffected = 0 then (Some ErrNoRows, d1)
               else (None, d1)))"

section \<open>The peer handlers (package handlers)\<close>

text \<open>
  The state the handlers work on: the database, the live interface and the
  configuration. A response is a status with a body, or a status with the text of
  \<^verbatim>\<open>ErrorResponse.Error\<close> and, where the source sets \<^verbatim>\<open>Message\<close>, the error it prints.
  A request body is the value \<^verbatim>\<open>ShouldBindJSON\<close> bound, \<open>None\<close> when binding failed.
\<close>

record World =
  db :: Database
  wg :: Iface
  config :: Config

datatype 'a response =
    Reply nat 'a
  | Failure nat string "error option"

record PeerResponse =
  pr_ID :: int
  pr_Name :: string
  pr_PublicKey :: string
  pr_AssignedIP :: string
  pr_Enabled :: bool
  pr_CreatedAt :: time

definition peer_response :: "Peer \<Rightarrow> PeerResponse" where
  "peer_response p =
     \<lparr>pr_ID = p_ID p, pr_Name = p_Name p, pr_PublicKey = p_PublicKey p,
      pr_AssignedIP = p_AssignedIP p, pr_Enabled = p_Enabled p, pr_CreatedAt = p_CreatedAt p\<rparr>"

record CreatePeerRequest =
  cpr_Name :: string

record UpdatePeerRequest =
  upr_Name :: "string option"
  upr_Enabled :: "bool option"

definition PeerHandler_CreatePeer ::
  "Lib \<Rightarrow> Env \<Rightarrow> World \<Rightarrow> CreatePeerRequest option \<Rightarrow> PeerResponse response \<times> World" where
  "PeerHandler_CreatePeer L env w body =
     (case body of
        None \<Rightarrow> (Failure 400 ''Invalid request body'' None, w)
      | Some req \<Rightarrow>
     (case GenerateKeyPair env of
        Inl e \<Rightarrow> (Failure 500 ''Failed to generate key pair'' None, w)
      | Inr (privateKey, publicKey) \<Rightarrow>
     (case GetNextAvailableIP (sscanf_ip L) (fails env QueryAssignedIPs) (db w) (Subnet (config w)) of
        Inl e \<Rightarrow> (Failure 500 ''Failed to assign IP address'' (Some e), w)
      | Inr assignedIP \<Rightarrow>
     (let peer = \<lparr>p_ID = 0, p_Name = cpr_Name req, p_PublicKey = publicKey,
                  p_PrivateKey = privateKey, p_AssignedIP = assignedIP, p_Enabled = True,
                  p_CreatedAt = 0, p_UpdatedAt = 0\<rparr>
      in case DB_CreatePeer (fails env) (now env) (db w) peer of
        (Inl e, d1) \<Rightarrow> (Failure 500 ''Failed to create peer'' (Some e), w\<lparr>db := d1\<rparr>)
      | (Inr createdPeer, d1) \<Rightarrow>
     (case AddPeer L (fails env) (config w) (wg w) publicKey assignedIP of
        (Some e, g1) \<Rightarrow>
          (Failure 500 ''Failed to add peer to WireGuard'' (Some e),
           w\<lparr>db := snd (DB_DeletePeer (fails env) d1 assignedIP), wg := g1\<rparr>)
      | (None, g1) \<Rightarrow>
          (Reply 201 (peer_response createdPeer), w\<lparr>db := d1, wg := g1\<rparr>))))))"

text \<open>
  \<^verbatim>\<open>UpdatePeer\<close>. The part after the live interface has been dealt with ("Update in
  database" and the response) is \<open>update_in_database\<close>; \<open>g1\<close> is the interface as the
  first part left it.
\<close>

definition update_in_database ::
  "Env \<Rightarrow> World \<Rightarrow> string \<Rightarrow> UpdatePeerRequest \<Rightarrow> Iface \<Rightarrow> PeerResponse response \<times> World" where
  "update_in_database env w ip req g1 =
     (case DB_UpdatePeer (fails env) (now env) (db w) ip (upr_Name req) (upr_Enabled req) of
        (Inl e, d1) \<Rightarrow> (Failure 500 ''Failed to update peer'' None, w\<lparr>db := d1, wg := g1\<rparr>)
      | (Inr updatedPeer, d1) \<Rightarrow>
          (Reply 200 (peer_response updatedPeer), w\<lparr>db := d1, wg := g1\<rparr>))"

definition PeerHandler_UpdatePeer ::
  "Lib \<Rightarrow> Env \<Rightarrow> World \<Rightarrow> string \<Rightarrow> UpdatePeerRequest option \<Rightarrow> PeerResponse response \<times> World" where
  "PeerHandler_UpdatePeer L env w ip body =
     (if \<not> ValidateIP ip then (Failure 400 ''Invalid IP address format'' None, w)
      else
     (case body of
        None \<Rightarrow> (Failure 400 ''Invalid request body'' None, w)
      | Some req \<Rightarrow>
     (case GetPeerByIP (fails env SelectPeerByIP) (db w) ip of
        Inl e \<Rightarrow> (Failure 404 ''Peer not found'' None, w)
      | Inr peer \<Rightarrow>
     (case upr_Enabled req of
        None \<Rightarrow> update_in_database env w ip req (wg w)
      | Some enabled \<Rightarrow>
          if enabled \<and> \<not> p_Enabled peer
          then (case AddPeer L (fails env) (config w) (wg w) (p_PublicKey peer) (p_AssignedIP peer) of
                  (Some e, g1) \<Rightarrow> (Failure 500 ''Failed to enable peer'' (Some e), w\<lparr>wg := g1\<rparr>)
                | (None, g1) \<Rightarrow> update_in_database env w ip req g1)
          else if \<not> enabled \<and> p_Enabled peer
          then (case RemovePeer L (fails env) (config w) (wg w) (p_PublicKey peer) of
                  (Some e, g1) \<Rightarrow> (Failure 500 ''Failed to disable peer'' (Some e), w\<lparr>wg := g1\<rparr>)
                | (None, g1) \<Rightarrow> update_in_database env w ip req g1)
          else update_in_database env w ip req (wg w)))))"

definition PeerHandler_DeletePeer ::
  "Lib \<Rightarrow> Env \<Rightarrow> World \<Rightarrow> string \<Rightarrow> string response \<times> World" where
  "PeerHandler_DeletePeer L env w ip =
     (if \<not> ValidateIP ip then (Failure 400 ''Invalid IP address format'' None, w)
      else
     (case GetPeerByIP (fails env SelectPeerByIP) (db w) ip of
        Inl e \<Rightarrow> (Failure 404 ''Peer not found'' None, w)
      | Inr peer \<Rightarrow>
     (case RemovePeer L (fails env) (config w) (wg w) (p_PublicKey peer) of
        (Some e, g1) \<Rightarrow>
          (Failure 500 ''Failed to remove peer from WireGuard'' (Some e), w\<lparr>wg := g1\<rparr>)
      | (None, g1) \<Rightarrow>
     (case DB_DeletePeer (fails env) (db w) ip of
        (Some e, d1) \<Rightarrow>
          (Failure 500 ''Failed to delete peer from database'' None, w\<lparr>db := d1, wg := g1\<rparr>)
      | (None, d1) \<Rightarrow>
          (Reply 200 ''Peer deleted successfully'', w\<lparr>db := d1, wg := g1\<rparr>)))))"

text \<open>
  AUTOINCREMENT never issues an id twice: every id in the table is at most the counter.
\<close>

definition peer_ids_issued :: "Database \<Rightarrow> bool" where
  "peer_ids_issued d = list_all (\<lambda>p. p_ID p \<le> peer_seq d) (peers d)"

text \<open>The row \<^verbatim>\<open>CreatePeer\<close> hands to the database: the Go struct with its zero fields.\<close>

abbreviation (input) new_peer :: "string \<Rightarrow> string \<Rightarrow> string \<Rightarrow> string \<Rightarrow> Peer" where
  "new_peer name priv pub ip \<equiv>
     \<lparr>p_ID = 0, p_Name = name, p_PublicKey = pub, p_PrivateKey = priv,
      p_AssignedIP = ip, p_Enabled = True, p_CreatedAt = 0, p_UpdatedAt = 0\<rparr>"


section \<open>Users and refresh tokens (package db)\<close>

definition GetUserByID :: "bool \<Rightarrow> Database \<Rightarrow> int \<Rightarrow> error + User" where
  "GetUserByID fault d i =
     (if fault then Inl ErrStorage
      else (case find (\<lambda>u. u_ID u = i) (users d) of None \<Rightarrow> Inl ErrNoRows | Some u \<Rightarrow> Inr u))"

definition GetUserByUsername :: "bool \<Rightarrow> Database \<Rightarrow> string \<Rightarrow> error + User" where
  "GetUserByUsername fault d username =
     (if fault then Inl ErrStorage
      else (case find (\<lambda>u. u_Username u = username) (users d) of
              None \<Rightarrow> Inl ErrNoRows | Some u \<Rightarrow> Inr u))"

text \<open>
  \<^verbatim>\<open>GetUserByAPIToken\<close>: the empty token is refused before any query; the query is
  \<^verbatim>\<open>WHERE api_token = ? AND api_token != ''\<close>.
\<close>

definition GetUserByAPIToken :: "bool \<Rightarrow> Database \<Rightarrow> string \<Rightarrow> error + User" where
  "GetUserByAPIToken fault d token =
     (if token = [] then Inl ErrNoRows
      else if fault then Inl ErrStorage
      else (case find (\<lambda>u. u_APIToken u = token \<and> u_APIToken u \<noteq> []) (users d) of
              None \<Rightarrow> Inl ErrNoRows | Some u \<Rightarrow> Inr u))"

definition UpdateUserAPIToken :: "bool \<Rightarrow> time \<Rightarrow> Database \<Rightarrow> int \<Rightarrow> string \<Rightarrow> error option \<times> Database" where
  "UpdateUserAPIToken fault t d userID apiToken =
     (if fault then (Some ErrStorage, d)
      else (None, d\<lparr>users := map (\<lambda>u. if u_ID u = userID
                                         then u\<lparr>u_APIToken := apiToken, u_UpdatedAt := t\<rparr> else u)
                                   (users d)\<rparr>))"

definition UpdateUserPassword :: "bool \<Rightarrow> time \<Rightarrow> Database \<Rightarrow> int \<Rightarrow> string \<Rightarrow> error option \<times> Database" where
  "UpdateUserPassword fault t d userID passwordHash =
     (if fault then (Some ErrStorage, d)
      else (None, d\<lparr>users := map (\<lambda>u. if u_ID u = userID
                                         then u\<lparr>u_PasswordHash := passwordHash, u_UpdatedAt := t\<rparr>
                                         else u)
                                   (users d)\<rparr>))"

text \<open>
  \<^verbatim>\<open>INSERT INTO refresh_tokens\<close>: the column \<^verbatim>\<open>token\<close> is UNIQUE and \<^verbatim>\<open>user_id\<close>
  references \<^verbatim>\<open>users(id)\<close> (the connection sets \<^verbatim>\<open>_foreign_keys=on\<close>).
\<close>

definition SaveRefreshToken ::
  "bool \<Rightarrow> time \<Rightarrow> Database \<Rightarrow> int \<Rightarrow> string \<Rightarrow> time \<Rightarrow> error option \<times> Database" where
  "SaveRefreshToken fault t d userID token expiresAt =
     (if fault then (Some ErrStorage, d)
      else if list_ex (\<lambda>r. rt_Token r = token) (refresh_tokens d) then (Some ErrConstraint, d)
      else if \<not> list_ex (\<lambda>u. u_ID u = userID) (users d) then (Some ErrConstraint, d)
      else (None, d\<lparr>refresh_tokens := refresh_tokens d @
                        [\<lparr>rt_ID = token_seq d + 1, rt_UserID = userID, rt_Token = token,
                          rt_ExpiresAt = expiresAt, rt_CreatedAt = t\<rparr>],
                      token_seq := token_seq d + 1\<rparr>))"

definition GetRefreshToken :: "bool \<Rightarrow> Database \<Rightarrow> string \<Rightarrow> error + RefreshToken" where
  "GetRefreshToken fault d token =
     (if fault then Inl ErrStorage
      else (case find (\<lambda>r. rt_Token r = token) (refresh_tokens d) of
              None \<Rightarrow> Inl ErrNoRows | Some r \<Rightarrow> Inr r))"

definition DeleteRefreshToken :: "bool \<Rightarrow> Database \<Rightarrow> string \<Rightarrow> error option \<times> Database" where
  "DeleteRefreshToken fault d token =
     (if fault then (Some ErrStorage, d)
      else (None, d\<lparr>refresh_tokens := filter (\<lambda>r. rt_Token r \<noteq> token) (refresh_tokens d)\<rparr>))"

definition DeleteUserRefreshTokens :: "bool \<Rightarrow> Database \<Rightarrow> int \<Rightarrow> error option \<times> Database" where
  "DeleteUserRefreshTokens fault d userID =
     (if fault then (Some ErrStorage, d)
      else (None, d\<lparr>refresh_tokens := filter (\<lambda>r. rt_UserID r \<noteq> userID) (refresh_tokens d)\<rparr>))"

text \<open>\<^verbatim>\<open>INSERT ... ON CONFLICT(key) DO UPDATE\<close> on the table \<^verbatim>\<open>settings\<close>.\<close>

definition SetSetting :: "bool \<Rightarrow> Database \<Rightarrow> string \<Rightarrow> string \<Rightarrow> error option \<times> Database" where
  "SetSetting fault d key val =
     (if fault then (Some ErrStorage, d)
      else (None, d\<lparr>settings := (if list_ex (\<lambda>kv. fst kv = key) (settings d)
                                   then map (\<lambda>kv. if fst kv = key then (key, val) else kv) (settings d)
                                   else settings d @ [(key, val)])\<rparr>))"

section \<open>The token authority (package auth)\<close>

definition ValidateAccessToken :: "Lib \<Rightarrow> Config \<Rightarrow> time \<Rightarrow> string \<Rightarrow> error + Claims" where
  "ValidateAccessToken L cfg t tokenString =
     (case jwt_parse L (AccessSecret cfg) t tokenString of
        JwtExpired \<Rightarrow> Inl ErrExpiredToken
      | JwtError \<Rightarrow> Inl ErrInvalidToken
      | JwtParsed claims valid \<Rightarrow> if \<not> valid then Inl ErrInvalidToken else Inr claims)"

definition VerifyPassword :: "Lib \<Rightarrow> string \<Rightarrow> string \<Rightarrow> error option" where
  "VerifyPassword L password hash =
     (if \<not> bcrypt_matches L hash password then Some ErrInvalidPassword else None)"

definition GenerateAccessToken :: "Env \<Rightarrow> error + string" where
  "GenerateAccessToken env = (if fails env SignAccessToken then Inl ErrSign else Inr (signed_token env))"

definition GenerateRefreshToken :: "Env \<Rightarrow> error + string" where
  "GenerateRefreshToken env = (if fails env RandRead then Inl ErrRand else Inr (fresh_token env))"

text \<open>\<^verbatim>\<open>time.Now().Add(time.Duration(cfg.RefreshExpiryDays) * 24 * time.Hour)\<close>, in nanoseconds.\<close>

definition GetRefreshTokenExpiry :: "Config \<Rightarrow> time \<Rightarrow> time" where
  "GetRefreshTokenExpiry cfg t = t + RefreshExpiryDays cfg * 24 * 3600000000000"

subsection \<open>The API credential\<close>

text \<open>
  \<^verbatim>\<open>base64.RawURLEncoding.EncodeToString\<close>: three bytes give four characters of the URL
  alphabet, a rest of two bytes gives three characters, a rest of one byte gives two;
  no padding is written. \<open>enc6 v\<close> is \<^verbatim>\<open>encode[v & 0x3F]\<close>, and a division by a power of
  two is the right shift.
\<close>

definition encodeURL :: string where
  "encodeURL = ''ABCDEFGHIJKLMNOPQRSTUVWXYZabcdefghijklmnopqrstuvwxyz0123456789-_''"

definition enc6 :: "nat \<Rightarrow> char" where
  "enc6 v = encodeURL ! (v mod 64)"

fun RawURLEncoding_EncodeToString :: "8 word list \<Rightarrow> string" where
  "RawURLEncoding_EncodeToString (a # b # c # rest) =
     (let v = unat a * 65536 + unat b * 256 + unat c
      in enc6 (v div 262144) # enc6 (v div 4096) # enc6 (v div 64) # enc6 v #
         RawURLEncoding_EncodeToString rest)"
| "RawURLEncoding_EncodeToString [a, b] =
     (let v = unat a * 65536 + unat b * 256
      in [enc6 (v div 262144), enc6 (v div 4096), enc6 (v div 64)])"
| "RawURLEncoding_EncodeToString [a] =
     (let v = unat a * 65536 in [enc6 (v div 262144), enc6 (v div 4096)])"
| "RawURLEncoding_EncodeToString [] = []"

text \<open>The 32 bytes of a digest, the most significant first (\<^verbatim>\<open>h.Sum(nil)\<close>).\<close>

definition digest_bytes :: "256 word \<Rightarrow> 8 word list" where
  "digest_bytes h = map (\<lambda>i. ucast (drop_bit (8 * (31 - i)) h)) [0..<32]"

text \<open>
  \<^verbatim>\<open>GenerateAPIToken(password string, _ string)\<close>: the second argument (the callers pass
  the JWT secret) is not used.
\<close>

definition fixedSalt :: string where
  "fixedSalt = ''wireguard-panel-api-token-salt-v1''"

definition GenerateAPIToken :: "Lib \<Rightarrow> string \<Rightarrow> string \<Rightarrow> string" where
  "GenerateAPIToken L password unused =
     (let hash = digest_bytes (hmac_sha256 L fixedSalt password);
          token = RawURLEncoding_EncodeToString hash
      in if length token > 43 then take 43 token else token)"

section \<open>The access gate (package middleware)\<close>

text \<open>\<^verbatim>\<open>strings.SplitN(s, " ", 2)\<close>: the string cut at its first space, if it has one.\<close>

definition SplitN2 :: "string \<Rightarrow> string list" where
  "SplitN2 s =
     (if CHR '' '' \<in> set s
      then [takeWhile (\<lambda>c. c \<noteq> CHR '' '') s, tl (dropWhile (\<lambda>c. c \<noteq> CHR '' '') s)]
      else [s])"

text \<open>
  \<^verbatim>\<open>strings.ToLower\<close> on ASCII. The gate compares the result with \<^verbatim>\<open>"bearer"\<close> only; the
  two letters outside ASCII that Unicode maps to an ASCII lower-case letter give
  \<^verbatim>\<open>i\<close> and \<^verbatim>\<open>k\<close>, which do not occur in that word, so the comparison is the source's.
\<close>

definition lower_char :: "char \<Rightarrow> char" where
  "lower_char c =
     (case map_of (zip ''ABCDEFGHIJKLMNOPQRSTUVWXYZ'' ''abcdefghijklmnopqrstuvwxyz'') c of
        None \<Rightarrow> c | Some l \<Rightarrow> l)"

definition ToLower :: "string \<Rightarrow> string" where
  "ToLower s = map lower_char s"

text \<open>
  The gate either lets the request pass with the identity it set (\<^verbatim>\<open>c.Set\<close>,
  \<^verbatim>\<open>c.Next()\<close>) or aborts with a status and an error text. Beside the outcome the
  model returns the validations the gate called, in the order of the calls.
\<close>

datatype auth_step =
    CallValidateAccessToken string
  | CallGetUserByAPIToken string

datatype auth_outcome =
    Next int string
  | Abort nat string

definition AuthMiddleware ::
  "Lib \<Rightarrow> Env \<Rightarrow> World \<Rightarrow> string \<Rightarrow> auth_outcome \<times> auth_step list" where
  "AuthMiddleware L env w authHeader =
     (if authHeader = [] then (Abort 401 ''Authorization header required'', [])
      else if length (SplitN2 authHeader) \<noteq> 2 \<or> ToLower (SplitN2 authHeader ! 0) \<noteq> ''bearer''
      then (Abort 401 ''Invalid authorization format. Use: Bearer <token>'', [])
      else (let tokenString = SplitN2 authHeader ! 1
            in if tokenString = [] then (Abort 401 ''Token required'', [])
               else (case ValidateAccessToken L (config w) (now env) tokenString of
                       Inr claims \<Rightarrow>
                         (Next (c_UserID claims) (c_Username claims),
                          [CallValidateAccessToken tokenString])
                     | Inl err \<Rightarrow>
                         if length tokenString = 43
                         then (case GetUserByAPIToken (fails env SelectUserByAPIToken) (db w)
                                      tokenString of
                                 Inr user \<Rightarrow>
                                   (Next (u_ID user) (u_Username user),
                                    [CallValidateAccessToken tokenString,
                                     CallGetUserByAPIToken tokenString])
                               | Inl apiErr \<Rightarrow>
                                   (Abort 401 ''Invalid or expired token'',
                                    [CallValidateAccessToken tokenString,
                                     CallGetUserByAPIToken tokenString]))
                         else (Abort 401 ''Invalid or expired token'',
                               [CallValidateAccessToken tokenString]))))"

section \<open>The authentication and settings handlers (package handlers)\<close>

record LoginRequest =
  lr_Username :: string
  lr_Password :: string

record LoginResponse =
  AccessToken :: string
  ExpiresIn :: int
  APIToken :: string

text \<open>
  A successful login or refresh answers with the JSON body and sets the cookie
  \<^verbatim>\<open>refresh_token\<close>; the reply of the model is the pair of the body and the cookie's
  value.
\<close>

definition AuthHandler_Login ::
  "Lib \<Rightarrow> Env \<Rightarrow> World \<Rightarrow> LoginRequest option \<Rightarrow> (LoginResponse \<times> string) response \<times> World" where
  "AuthHandler_Login L env w body =
     (case body of
        None \<Rightarrow> (Failure 400 ''Invalid request body'' None, w)
      | Some req \<Rightarrow>
     (case GetUserByUsername (fails env SelectUserByUsername) (db w) (lr_Username req) of
        Inl e \<Rightarrow> (Failure 401 ''Invalid credentials'' None, w)
      | Inr user \<Rightarrow>
     (if VerifyPassword L (lr_Password req) (u_PasswordHash user) \<noteq> None
      then (Failure 401 ''Invalid credentials'' None, w)
      else
     (let apiToken = GenerateAPIToken L (lr_Password req) (AccessSecret (config w));
          upd = (if u_APIToken user \<noteq> apiToken
                 then UpdateUserAPIToken (fails env UpdateAPIToken) (now env) (db w) (u_ID user) apiToken
                 else (None, db w))
      in case upd of
        (Some e, d1) \<Rightarrow> (Failure 500 ''Failed to update API token'' None, w\<lparr>db := d1\<rparr>)
      | (None, d1) \<Rightarrow>
     (case GenerateAccessToken env of
        Inl e \<Rightarrow> (Failure 500 ''Failed to generate access token'' None, w\<lparr>db := d1\<rparr>)
      | Inr accessToken \<Rightarrow>
     (case GenerateRefreshToken env of
        Inl e \<Rightarrow> (Failure 500 ''Failed to generate refresh token'' None, w\<lparr>db := d1\<rparr>)
      | Inr refreshToken \<Rightarrow>
     (case SaveRefreshToken (fails env InsertRefreshToken) (now env) d1 (u_ID user) refreshToken
             (GetRefreshTokenExpiry (config w) (now env)) of
        (Some e, d2) \<Rightarrow> (Failure 500 ''Failed to save refresh token'' None, w\<lparr>db := d2\<rparr>)
      | (None, d2) \<Rightarrow>
          (Reply 200 (\<lparr>AccessToken = accessToken,
                        ExpiresIn = AccessExpiryMinutes (config w) * 60,
                        APIToken = apiToken\<rparr>, refreshToken),
           w\<lparr>db := d2\<rparr>))))))))"

text \<open>
  \<^verbatim>\<open>Refresh\<close>: the argument is the value of the cookie \<^verbatim>\<open>refresh_token\<close>, \<open>None\<close> when
  the request has none. Both calls of \<^verbatim>\<open>DeleteRefreshToken\<close> drop the error it returns.
\<close>

definition AuthHandler_Refresh ::
  "Lib \<Rightarrow> Env \<Rightarrow> World \<Rightarrow> string option \<Rightarrow> (LoginResponse \<times> string) response \<times> World" where
  "AuthHandler_Refresh L env w cookie =
     (case cookie of
        None \<Rightarrow> (Failure 401 ''Refresh token not found'' None, w)
      | Some refreshToken \<Rightarrow>
     (case GetRefreshToken (fails env SelectRefreshToken) (db w) refreshToken of
        Inl e \<Rightarrow> (Failure 401 ''Invalid refresh token'' None, w)
      | Inr tokenData \<Rightarrow>
     (if now env > rt_ExpiresAt tokenData
      then (Failure 401 ''Refresh token expired'' None,
            w\<lparr>db := snd (DeleteRefreshToken (fails env DeleteRefreshTokenRow) (db w) refreshToken)\<rparr>)
      else
     (case GetUserByID (fails env SelectUserByID) (db w) (rt_UserID tokenData) of
        Inl e \<Rightarrow> (Failure 401 ''User not found'' None, w)
      | Inr user \<Rightarrow>
     (case GenerateAccessToken env of
        Inl e \<Rightarrow> (Failure 500 ''Failed to generate access token'' None, w)
      | Inr accessToken \<Rightarrow>
     (let d1 = snd (DeleteRefreshToken (fails env DeleteRefreshTokenRow) (db w) refreshToken)
      in case GenerateRefreshToken env of
        Inl e \<Rightarrow> (Failure 500 ''Failed to generate refresh token'' None, w\<lparr>db := d1\<rparr>)
      | Inr newRefreshToken \<Rightarrow>
     (case SaveRefreshToken (fails env InsertRefreshToken) (now env) d1 (u_ID user) newRefreshToken
             (GetRefreshTokenExpiry (config w) (now env)) of
        (Some e, d2) \<Rightarrow> (Failure 500 ''Failed to save refresh token'' None, w\<lparr>db := d2\<rparr>)
      | (None, d2) \<Rightarrow>
          (Reply 200 (\<lparr>AccessToken = accessToken,
                        ExpiresIn = AccessExpiryMinutes (config w) * 60,
                        APIToken = u_APIToken user\<rparr>, newRefreshToken),
           w\<lparr>db := d2\<rparr>))))))))"

record UpdateSettingsRequest =
  usr_DNS :: "string option"
  usr_AllowedIPs :: "string option"
  usr_LoggingEnabled :: "bool option"
  usr_AdminPassword :: "string option"

text \<open>
  \<^verbatim>\<open>UpdateSettings\<close>, in the four parts of the source. Each of the first three returns
  the error response of its failure or the state it leaves; the last is the admin
  password. \<^verbatim>\<open>bcrypt.GenerateFromPassword\<close> gives the hash the environment holds, or fails.
  The error of \<^verbatim>\<open>DeleteUserRefreshTokens\<close> is dropped.
\<close>

definition update_dns :: "Env \<Rightarrow> World \<Rightarrow> UpdateSettingsRequest \<Rightarrow> string response + World" where
  "update_dns env w req =
     (case usr_DNS req of
        None \<Rightarrow> Inr w
      | Some v \<Rightarrow>
          (case SetSetting (fails env SetDNS) (db w) ''dns'' v of
             (Some e, d1) \<Rightarrow> Inl (Failure 500 ''Failed to update DNS'' None)
           | (None, d1) \<Rightarrow> Inr (w\<lparr>db := d1, config := (config w)\<lparr>DNS := v\<rparr>\<rparr>)))"

definition update_allowed_ips :: "Env \<Rightarrow> World \<Rightarrow> UpdateSettingsRequest \<Rightarrow> string response + World" where
  "update_allowed_ips env w req =
     (case usr_AllowedIPs req of
        None \<Rightarrow> Inr w
      | Some v \<Rightarrow>
          (case SetSetting (fails env SetAllowedIPs) (db w) ''allowed_ips'' v of
             (Some e, d1) \<Rightarrow> Inl (Failure 500 ''Failed to update AllowedIPs'' None)
           | (None, d1) \<Rightarrow> Inr (w\<lparr>db := d1, config := (config w)\<lparr>AllowedIPs := v\<rparr>\<rparr>)))"

definition update_logging :: "Env \<Rightarrow> World \<Rightarrow> UpdateSettingsRequest \<Rightarrow> string response + World" where
  "update_logging env w req =
     (case usr_LoggingEnabled req of
        None \<Rightarrow> Inr w
      | Some b \<Rightarrow>
          (case SetSetting (fails env SetLogging) (db w) ''logging_enabled''
                  (if b then ''true'' else ''false'') of
             (Some e, d1) \<Rightarrow> Inl (Failure 500 ''Failed to update logging setting'' None)
           | (None, d1) \<Rightarrow> Inr (w\<lparr>db := d1\<rparr>)))"

definition update_admin_password ::
  "Lib \<Rightarrow> Env \<Rightarrow> World \<Rightarrow> string \<Rightarrow> string response \<times> World" where
  "update_admin_password L env w adminPassword =
     (if fails env BcryptHash then (Failure 500 ''Failed to hash password'' None, w)
      else
     (case GetUserByUsername (fails env SelectUserByUsername) (db w) (AdminUsername (config w)) of
        Inl e \<Rightarrow> (Failure 500 ''Failed to find admin user'' None, w)
      | Inr user \<Rightarrow>
     (case UpdateUserPassword (fails env UpdatePassword) (now env) (db w) (u_ID user)
             (password_hash env) of
        (Some e, d1) \<Rightarrow> (Failure 500 ''Failed to update password'' None, w\<lparr>db := d1\<rparr>)
      | (None, d1) \<Rightarrow>
     (case UpdateUserAPIToken (fails env UpdateAPIToken) (now env) d1 (u_ID user)
             (GenerateAPIToken L adminPassword (AccessSecret (config w))) of
        (Some e, d2) \<Rightarrow> (Failure 500 ''Failed to update API token'' None, w\<lparr>db := d2\<rparr>)
      | (None, d2) \<Rightarrow>
          (Reply 200 ''Settings updated'',
           w\<lparr>db := snd (DeleteUserRefreshTokens (fails env DeleteUserTokens) d2 (u_ID user))\<rparr>)))))"

definition SettingsHandler_UpdateSettings ::
  "Lib \<Rightarrow> Env \<Rightarrow> World \<Rightarrow> UpdateSettingsRequest option \<Rightarrow> string response \<times> World" where
  "SettingsHandler_UpdateSettings L env w body =
     (case body of
        None \<Rightarrow> (Failure 400 ''Invalid request'' None, w)
      | Some req \<Rightarrow>
     (case update_dns env w req of
        Inl resp \<Rightarrow> (resp, w)
      | Inr w1 \<Rightarrow>
     (case update_allowed_ips env w1 req of
        Inl resp \<Rightarrow> (resp, w1)
      | Inr w2 \<Rightarrow>
     (case update_logging env w2 req of
        Inl resp \<Rightarrow> (resp, w2)
      | Inr w3 \<Rightarrow>
     (case usr_AdminPassword req of
        None \<Rightarrow> (Reply 200 ''Settings updated'', w3)
      | Some adminPassword \<Rightarrow>
          if adminPassword = [] then (Reply 200 ''Settings updated'', w3)
          else update_admin_password L env w3 adminPassword)))))"

text \<open>The UNIQUE column \<^verbatim>\<open>refresh_tokens.token\<close>: no two rows carry the same token.\<close>

definition tokens_unique :: "Database \<Rightarrow> bool" where
  "tokens_unique d = distinct (map rt_Token (refresh_tokens d))"

section \<open>The login rate limiter (package middleware)\<close>

text \<open>
  Modelled from the spec: \<^verbatim>\<open>rate.Limit\<close>, \<^verbatim>\<open>rate.Limiter\<close>, \<^verbatim>\<open>rate.NewLimiter\<close> and
  \<^verbatim>\<open>Limiter.Allow\<close> (package golang.org/x/time/rate) are not among the sources. The spec
  calls the limiter "a per-source-address token bucket": a bucket that holds at most
  \<open>burst\<close> tokens, starts full, gains \<open>limit\<close> tokens per second and gives one token to
  each request it admits; a request that finds less than one token is refused and takes
  nothing. An infinite limit admits every request, and a limit of zero only spends the
  burst. Tokens are exact rationals (the library computes in float64) and instants are
  nanoseconds.
\<close>

datatype Limit = InfLimit | Rate rat

record Limiter =
  lim_limit :: Limit
  lim_burst :: int
  lim_tokens :: rat
  lim_last :: time

definition NewLimiter :: "Limit \<Rightarrow> int \<Rightarrow> Limiter" where
  "NewLimiter r b = \<lparr>lim_limit = r, lim_burst = b, lim_tokens = of_int b, lim_last = 0\<rparr>"

definition advance :: "Limiter \<Rightarrow> rat \<Rightarrow> time \<Rightarrow> rat" where
  "advance lm r t =
     (let last = (if t < lim_last lm then t else lim_last lm);
          elapsed = t - last;
          tokens = lim_tokens lm + of_int elapsed / 1000000000 * r
      in if tokens > of_int (lim_burst lm) then of_int (lim_burst lm) else tokens)"

definition Allow :: "Limiter \<Rightarrow> time \<Rightarrow> bool \<times> Limiter" where
  "Allow lm t =
     (case lim_limit lm of
        InfLimit \<Rightarrow> (True, lm)
      | Rate r \<Rightarrow>
          if r = 0
          then (if 1 \<le> lim_burst lm then (True, lm\<lparr>lim_burst := lim_burst lm - 1\<rparr>)
                else (False, lm))
          else (let tokens = advance lm r t - 1
                in if 1 \<le> lim_burst lm \<and> 0 \<le> tokens
                   then (True, lm\<lparr>lim_tokens := tokens, lim_last := t\<rparr>)
                   else (False, lm)))"

text \<open>
  The rate limiter of the repository: the map of visitors by client address, the rate
  \<^verbatim>\<open>float64(requests) / float64(windowSeconds)\<close> and the burst \<^verbatim>\<open>requests\<close>. The quotient
  is exact here; by a window of zero seconds Go's division gives an infinite limit for a
  positive number of requests, and otherwise a limit with which the burst, which is not
  positive then, admits nothing. The limiter of a visitor is a pointer the middleware
  mutates through \<^verbatim>\<open>Allow\<close>: the model writes the limiter back into the map.
\<close>

record visitorInfo =
  limiter :: Limiter
  lastSeen :: time

record RateLimiter =
  visitors :: "string \<rightharpoonup> visitorInfo"
  rl_rate :: Limit
  rl_burst :: int

definition NewRateLimiter :: "int \<Rightarrow> int \<Rightarrow> RateLimiter" where
  "NewRateLimiter requests windowSeconds =
     \<lparr>visitors = Map.empty,
      rl_rate = (if windowSeconds = 0 then (if 0 < requests then InfLimit else Rate 0)
                 else Rate (of_int requests / of_int windowSeconds)),
      rl_burst = requests\<rparr>"

definition getVisitor :: "RateLimiter \<Rightarrow> string \<Rightarrow> time \<Rightarrow> Limiter \<times> RateLimiter" where
  "getVisitor rl ip t =
     (case visitors rl ip of
        None \<Rightarrow>
          (NewLimiter (rl_rate rl) (rl_burst rl),
           rl\<lparr>visitors := (visitors rl)(ip \<mapsto>
                 \<lparr>limiter = NewLimiter (rl_rate rl) (rl_burst rl), lastSeen = t\<rparr>)\<rparr>)
      | Some v \<Rightarrow> (limiter v, rl\<lparr>visitors := (visitors rl)(ip \<mapsto> v\<lparr>lastSeen := t\<rparr>)\<rparr>))"

datatype gate = Proceed | Rejected nat string

definition RateLimiter_Middleware :: "RateLimiter \<Rightarrow> string \<Rightarrow> time \<Rightarrow> gate \<times> RateLimiter" where
  "RateLimiter_Middleware rl ip t =
     (case getVisitor rl ip t of
        (lm, rl1) \<Rightarrow>
          (case Allow lm t of
             (ok, lm1) \<Rightarrow>
               (if \<not> ok then Rejected 429 ''Too many requests'' else Proceed,
                rl1\<lparr>visitors := (visitors rl1)(ip \<mapsto> \<lparr>limiter = lm1, lastSeen = t\<rparr>)\<rparr>)))"

text \<open>Successive requests of one client address, at the instants of the list.\<close>

fun attempts :: "RateLimiter \<Rightarrow> string \<Rightarrow> time list \<Rightarrow> gate list \<times> RateLimiter" where
  "attempts rl ip [] = ([], rl)"
| "attempts rl ip (t # ts) =
     (case RateLimiter_Middleware rl ip t of
        (g, rl1) \<Rightarrow> (case attempts rl1 ip ts of (gs, rl2) \<Rightarrow> (g # gs, rl2)))"

text \<open>The limiter \<^verbatim>\<open>getVisitor\<close> hands out for an address, and what the login limiter is set to.\<close>

definition limiter_of :: "RateLimiter \<Rightarrow> string \<Rightarrow> Limiter" where
  "limiter_of rl ip =
     (case visitors rl ip of None \<Rightarrow> NewLimiter (rl_rate rl) (rl_burst rl) | Some v \<Rightarrow> limiter v)"

definition login_limit :: "RateLimiter \<Rightarrow> string \<Rightarrow> bool" where
  "login_limit rl ip =
     (lim_limit (limiter_of rl ip) = Rate (5 / 60) \<and> lim_burst (limiter_of rl ip) = 5)"

text \<open>One round of \<^verbatim>\<open>cleanupVisitors\<close>: visitors not seen for more than three minutes go.\<close>

definition cleanupVisitors :: "RateLimiter \<Rightarrow> time \<Rightarrow> RateLimiter" where
  "cleanupVisitors rl t =
     rl\<lparr>visitors := (\<lambda>ip. case visitors rl ip of
                                None \<Rightarrow> None
                              | Some v \<Rightarrow> if t - lastSeen v > 180000000000 then None else Some v)\<rparr>"

text \<open>The same requests seen at one limiter, and the gate's answer to \<^verbatim>\<open>Allow\<close>.\<close>

fun allows :: "Limiter \<Rightarrow> time list \<Rightarrow> bool list" where
  "allows lm [] = []"
| "allows lm (t # ts) = (case Allow lm t of (ok, lm1) \<Rightarrow> ok # allows lm1 ts)"

definition gate_of :: "bool \<Rightarrow> gate" where
  "gate_of ok = (if \<not> ok then Rejected 429 ''Too many requests'' else Proceed)"

section \<open>Concrete states used by the witnesses\<close>

definition mk_peer :: "int \<Rightarrow> string \<Rightarrow> string \<Rightarrow> string \<Rightarrow> bool \<Rightarrow> Peer" where
  "mk_peer i name pk ip en =
     \<lparr>p_ID = i, p_Name = name, p_PublicKey = pk, p_PrivateKey = ''priv-'' @ pk,
      p_AssignedIP = ip, p_Enabled = en, p_CreatedAt = 0, p_UpdatedAt = 0\<rparr>"

definition empty_db :: Database where
  "empty_db = \<lparr>users = [], peers = [], refresh_tokens = [], settings = [],
               user_seq = 0, peer_seq = 0, token_seq = 0\<rparr>"

definition key1 :: string where
  "key1 = ''AAAAAAAAAAAAAAAAAAAAAAAAAAAAAAAAAAAAAAAAAAA=''"

definition key2 :: string where
  "key2 = ''BBBBBBBBBBBBBBBBBBBBBBBBBBBBBBBBBBBBBBBBBBB=''"

definition key3 :: string where
  "key3 = ''CCCCCCCCCCCCCCCCCCCCCCCCCCCCCCCCCCCCCCCCCCC=''"

definition two_peers_db :: Database where
  "two_peers_db = empty_db\<lparr>peers := [mk_peer 1 ''laptop'' key1 ''10.8.0.2'' True,
                                     mk_peer 2 ''phone'' key2 ''10.8.0.3'' False],
                           peer_seq := 2\<rparr>"

definition sscanf_10_8_0 :: "string \<Rightarrow> int \<times> int \<times> int \<times> int" where
  "sscanf_10_8_0 s = (10, 8, 0, 0)"

definition lib0 :: Lib where
  "lib0 = \<lparr>sscanf_ip = sscanf_10_8_0,
           b64_decoded_len = (\<lambda>s. if length s = 44 then Some 32 else None),
           hmac_sha256 = (\<lambda>key msg. of_nat (length msg)),
           bcrypt_matches = (\<lambda>hash password. hash = ''bcrypt:'' @ password),
           jwt_parse = (\<lambda>secret t token.
              if token = ''good.jwt.token''
              then JwtParsed \<lparr>c_UserID = 1, c_Username = ''admin''\<rparr> True
              else if token = ''old.jwt.token'' then JwtExpired else JwtError)\<rparr>"

definition config0 :: Config where
  "config0 = \<lparr>Interface = ''wg0'', Subnet = ''10.8.0.0/24'', DNS = ''1.1.1.1'',
              AllowedIPs = ''0.0.0.0/0'', AccessSecret = ''secret'', AccessExpiryMinutes = 15,
              RefreshExpiryDays = 7, AdminUsername = ''admin''\<rparr>"

definition iface0 :: Iface where
  "iface0 = \<lparr>live = [], saved = [], calls = []\<rparr>"

definition env0 :: Env where
  "env0 = \<lparr>fails = (\<lambda>s. False), now = 1000, keypair = (''private-key'', key3),
           fresh_token = ''fresh-refresh-token'', signed_token = ''signed.access.token'',
           password_hash = ''bcrypt:new''\<rparr>"

definition world0 :: World where
  "world0 = \<lparr>db = empty_db, wg = iface0, config = config0\<rparr>"

definition world2 :: World where
  "world2 = \<lparr>db = two_peers_db,
             wg = \<lparr>live = [(key1, ''10.8.0.2/32'')], saved = [(key1, ''10.8.0.2/32'')], calls = []\<rparr>,
             config = config0\<rparr>"

definition env_wg_down :: Env where
  "env_wg_down = env0\<lparr>fails := (\<lambda>s. s = WgSet)\<rparr>"

definition env_readback_fails :: Env where
  "env_readback_fails = env0\<lparr>fails := (\<lambda>s. s = SelectPeerByID)\<rparr>"

definition env_delete_fails :: Env where
  "env_delete_fails = env0\<lparr>fails := (\<lambda>s. s = WgSet \<or> s = DeletePeerRow)\<rparr>"

definition api43 :: string where
  "api43 = ''abcdefghijklmnopqrstuvwxyzABCDEFGHIJKLMNOPQ''"

definition admin_user :: "string \<Rightarrow> User" where
  "admin_user tok =
     \<lparr>u_ID = 1, u_Username = ''admin'', u_PasswordHash = ''bcrypt:changeme123'',
      u_APIToken = tok, u_CreatedAt = 0, u_UpdatedAt = 0\<rparr>"

definition world_fresh :: World where
  "world_fresh = world0\<lparr>db := empty_db\<lparr>users := [admin_user []], user_seq := 1\<rparr>\<rparr>"

definition world_api :: World where
  "world_api = world0\<lparr>db := empty_db\<lparr>users := [admin_user api43], user_seq := 1\<rparr>\<rparr>"

definition env1 :: Env where
  "env1 = env0\<lparr>now := 2000, fresh_token := ''second-refresh-token''\<rparr>"

definition login_admin :: LoginRequest where
  "login_admin = \<lparr>lr_Username = ''admin'', lr_Password = ''changeme123''\<rparr>"

definition old_token_row :: RefreshToken where
  "old_token_row = \<lparr>rt_ID = 1, rt_UserID = 1, rt_Token = ''old-refresh-token'',
                     rt_ExpiresAt = 5000, rt_CreatedAt = 0\<rparr>"

definition world_rt :: World where
  "world_rt = world0\<lparr>db := empty_db\<lparr>users := [admin_user api43], user_seq := 1,
                                     refresh_tokens := [old_token_row], token_seq := 1\<rparr>\<rparr>"

definition env_token_delete_fails :: Env where
  "env_token_delete_fails = env0\<lparr>fails := (\<lambda>s. s = DeleteRefreshTokenRow)\<rparr>"

definition env_late :: Env where
  "env_late = env0\<lparr>now := 9000\<rparr>"

definition env_late_delete_fails :: Env where
  "env_late_delete_fails = env0\<lparr>now := 9000, fails := (\<lambda>s. s = DeleteRefreshTokenRow)\<rparr>"

definition env_user_tokens_delete_fails :: Env where
  "env_user_tokens_delete_fails = env0\<lparr>fails := (\<lambda>s. s = DeleteUserTokens)\<rparr>"

definition new_password_request :: UpdateSettingsRequest where
  "new_password_request = \<lparr>usr_DNS = Some ''9.9.9.9'', usr_AllowedIPs = None,
                            usr_LoggingEnabled = None, usr_AdminPassword = Some ''new''\<rparr>"

section \<open>Address allocation\<close>

lemma digits_literal: "''0123456789'' = map (\<lambda>k. char_of (48 + k)) [0..<10]"
  by code_simp

lemma digit_char_code: "n < 10 \<Longrightarrow> digit_char n = char_of (48 + n)"
  unfolding digit_char_def digits_literal by (simp del: upt_rec_numeral)

lemma digit_val_digit_char: "n < 10 \<Longrightarrow> digit_val (digit_char n) = n"
  by (simp add: digit_char_code digit_val_def)

lemma digit_char_not_minus: "n < 10 \<Longrightarrow> digit_char n \<noteq> CHR ''-''"
proof
  assume n: "n < 10" and "digit_char n = CHR ''-''"
  then have "(of_char (digit_char n) :: nat) = of_char (CHR ''-'')" by simp
  with n show False by (simp add: digit_char_code)
qed

lemma undigits_digits10: "undigits (digits10 n) = n"
proof (induction n rule: digits10.induct)
  case (1 n)
  show ?case
  proof (cases "n < 10")
    case True
    then show ?thesis by (simp add: digits10.simps[of n] undigits_def digit_val_digit_char)
  next
    case False
    with 1 have "undigits (digits10 (n div 10)) = n div 10" by simp
    with False show ?thesis
      by (simp add: digits10.simps[of n] undigits_def digit_val_digit_char)
  qed
qed

lemma digits10_inj: "digits10 m = digits10 n \<Longrightarrow> m = n"
  by (metis undigits_digits10)

lemma digits10_hd: "\<exists>c cs. digits10 n = c # cs \<and> c \<noteq> CHR ''-''"
proof (induction n rule: digits10.induct)
  case (1 n)
  show ?case
  proof (cases "n < 10")
    case True
    then show ?thesis by (simp add: digits10.simps[of n] digit_char_not_minus)
  next
    case False
    with 1 obtain c cs where "digits10 (n div 10) = c # cs" "c \<noteq> CHR ''-''" by auto
    with False show ?thesis by (simp add: digits10.simps[of n])
  qed
qed

lemma itoa_inj: "itoa i = itoa j \<Longrightarrow> i = j"
proof -
  assume e: "itoa i = itoa j"
  obtain c cs where pi: "digits10 (nat i) = c # cs" "c \<noteq> CHR ''-''"
    using digits10_hd by blast
  obtain c' cs' where pj: "digits10 (nat j) = c' # cs'" "c' \<noteq> CHR ''-''"
    using digits10_hd by blast
  show ?thesis
  proof (cases "i < 0"; cases "j < 0")
    assume "i < 0" "j < 0"
    with e have "digits10 (nat (- i)) = digits10 (nat (- j))" by (simp add: itoa_def)
    then have "nat (- i) = nat (- j)" by (rule digits10_inj)
    with \<open>i < 0\<close> \<open>j < 0\<close> show ?thesis by simp
  next
    assume "i < 0" "\<not> j < 0"
    with e pj show ?thesis by (simp add: itoa_def)
  next
    assume "\<not> i < 0" "j < 0"
    with e pi show ?thesis by (simp add: itoa_def)
  next
    assume "\<not> i < 0" "\<not> j < 0"
    with e have "digits10 (nat i) = digits10 (nat j)" by (simp add: itoa_def)
    then have "nat i = nat j" by (rule digits10_inj)
    with \<open>\<not> i < 0\<close> \<open>\<not> j < 0\<close> show ?thesis by simp
  qed
qed

lemma sprintf_ip_inj: "sprintf_ip a b c i = sprintf_ip a b c j \<Longrightarrow> i = j"
  by (simp add: sprintf_ip_def itoa_inj)

lemma find_free_Inr:
  "find_free fmt U i = Inr ip \<Longrightarrow>
     \<exists>k. i \<le> k \<and> k < 255 \<and> ip = fmt k \<and> fmt k \<notin> U \<and> (\<forall>j. i \<le> j \<and> j < k \<longrightarrow> fmt j \<in> U)"
proof (induction fmt U i rule: find_free.induct)
  case (1 fmt U i)
  show ?case
  proof (cases "i < 255")
    case False
    with 1(2) show ?thesis by (simp add: find_free.simps[of fmt U i])
  next
    case True
    show ?thesis
    proof (cases "fmt i \<in> U")
      case False
      with True 1(2) have "ip = fmt i" by (simp add: find_free.simps[of fmt U i])
      with True False show ?thesis by (intro exI[of _ i]) auto
    next
      case inU: True
      with True 1(2) have "find_free fmt U (i + 1) = Inr ip"
        by (simp add: find_free.simps[of fmt U i])
      with 1(1) True inU obtain k where k: "i + 1 \<le> k" "k < 255" "ip = fmt k" "fmt k \<notin> U"
        "\<forall>j. i + 1 \<le> j \<and> j < k \<longrightarrow> fmt j \<in> U" by blast
      have "\<forall>j. i \<le> j \<and> j < k \<longrightarrow> fmt j \<in> U"
      proof (intro allI impI)
        fix j assume "i \<le> j \<and> j < k"
        then have "j = i \<or> (i + 1 \<le> j \<and> j < k)" by arith
        with inU k(5) show "fmt j \<in> U" by blast
      qed
      with k show ?thesis by (intro exI[of _ k]) auto
    qed
  qed
qed

lemma find_free_Inl:
  "find_free fmt U i = Inl e \<Longrightarrow>
     e = ErrNoAvailableIP \<and> (\<forall>j. i \<le> j \<and> j < 255 \<longrightarrow> fmt j \<in> U)"
proof (induction fmt U i rule: find_free.induct)
  case (1 fmt U i)
  show ?case
  proof (cases "i < 255")
    case False
    with 1(2) show ?thesis by (auto simp add: find_free.simps[of fmt U i])
  next
    case True
    show ?thesis
    proof (cases "fmt i \<in> U")
      case False
      with True 1(2) show ?thesis by (simp add: find_free.simps[of fmt U i])
    next
      case inU: True
      with True 1(2) have "find_free fmt U (i + 1) = Inl e"
        by (simp add: find_free.simps[of fmt U i])
      with 1(1) True inU have k: "e = ErrNoAvailableIP"
        "\<forall>j. i + 1 \<le> j \<and> j < 255 \<longrightarrow> fmt j \<in> U" by blast+
      have "\<forall>j. i \<le> j \<and> j < 255 \<longrightarrow> fmt j \<in> U"
      proof (intro allI impI)
        fix j assume "i \<le> j \<and> j < 255"
        then have "j = i \<or> (i + 1 \<le> j \<and> j < 255)" by arith
        with inU k(2) show "fmt j \<in> U" by blast
      qed
      with k show ?thesis by simp
    qed
  qed
qed

lemma GetNextAvailableIP_storage_fault:
  "GetNextAvailableIP sscanf True d subnet = Inl ErrStorage"
  by (simp add: GetNextAvailableIP_def split: prod.splits)

text \<open>
  Claim C2. Whenever the registry query delivers the assigned addresses, allocation over
  the base \<open>oa.ob.oc\<close> read from the subnet returns the address of the lowest host
  number in 2..254 whose address is not in use: every lower host number from 2 on is in
  use, the address returned is none of the addresses in use and is not the address of
  host 1 (nor of any host number outside 2..254). It returns the error
  "no available IP addresses in subnet" exactly when the addresses of all host numbers
  2..254 are in use, and it returns no other error.
\<close>

theorem GetNextAvailableIP_lowest_unused:
  assumes sc: "sscanf (base_of_subnet subnet) = (oa, ob, oc, od)"
  shows "(case GetNextAvailableIP sscanf False d subnet of
            Inr ip \<Rightarrow>
              (\<exists>i. 2 \<le> i \<and> i \<le> 254 \<and> ip = sprintf_ip oa ob oc i \<and>
                   (\<forall>j. 2 \<le> j \<and> j < i \<longrightarrow> sprintf_ip oa ob oc j \<in> usedIPs d)) \<and>
              ip \<notin> usedIPs d \<and>
              (\<forall>k. k < 2 \<or> 254 < k \<longrightarrow> ip \<noteq> sprintf_ip oa ob oc k)
          | Inl e \<Rightarrow> e = ErrNoAvailableIP) \<and>
         (GetNextAvailableIP sscanf False d subnet = Inl ErrNoAvailableIP \<longleftrightarrow>
            (\<forall>j. 2 \<le> j \<and> j \<le> 254 \<longrightarrow> sprintf_ip oa ob oc j \<in> usedIPs d))"
proof -
  let ?fmt = "sprintf_ip oa ob oc"
  let ?r = "GetNextAvailableIP sscanf False d subnet"
  have r: "?r = find_free ?fmt (usedIPs d) 2"
    using sc by (simp add: GetNextAvailableIP_def)
  have full_iff: "?r = Inl ErrNoAvailableIP \<longleftrightarrow> (\<forall>j. 2 \<le> j \<and> j \<le> 254 \<longrightarrow> ?fmt j \<in> usedIPs d)"
  proof
    assume "?r = Inl ErrNoAvailableIP"
    with r have "\<forall>j. 2 \<le> j \<and> j < 255 \<longrightarrow> ?fmt j \<in> usedIPs d"
      using find_free_Inl[of ?fmt "usedIPs d" 2 ErrNoAvailableIP] by simp
    then show "\<forall>j. 2 \<le> j \<and> j \<le> 254 \<longrightarrow> ?fmt j \<in> usedIPs d" by simp
  next
    assume all: "\<forall>j. 2 \<le> j \<and> j \<le> 254 \<longrightarrow> ?fmt j \<in> usedIPs d"
    show "?r = Inl ErrNoAvailableIP"
    proof (cases ?r)
      case (Inl e)
      with r have "find_free ?fmt (usedIPs d) 2 = Inl e" by simp
      then have "e = ErrNoAvailableIP" using find_free_Inl by blast
      with Inl show ?thesis by simp
    next
      case (Inr ip)
      with r obtain k where "2 \<le> k" "k < 255" "?fmt k \<notin> usedIPs d"
        using find_free_Inr[of ?fmt "usedIPs d" 2 ip] by auto
      with all show ?thesis by auto
    qed
  qed
  have main: "case ?r of
      Inr ip \<Rightarrow>
        (\<exists>i. 2 \<le> i \<and> i \<le> 254 \<and> ip = ?fmt i \<and> (\<forall>j. 2 \<le> j \<and> j < i \<longrightarrow> ?fmt j \<in> usedIPs d)) \<and>
        ip \<notin> usedIPs d \<and> (\<forall>k. k < 2 \<or> 254 < k \<longrightarrow> ip \<noteq> ?fmt k)
    | Inl e \<Rightarrow> e = ErrNoAvailableIP"
  proof (cases ?r)
    case (Inl e)
    with r have "find_free ?fmt (usedIPs d) 2 = Inl e" by simp
    then have "e = ErrNoAvailableIP" using find_free_Inl by blast
    with Inl show ?thesis by simp
  next
    case (Inr ip)
    with r obtain i where i: "2 \<le> i" "i < 255" "ip = ?fmt i" "?fmt i \<notin> usedIPs d"
      "\<forall>j. 2 \<le> j \<and> j < i \<longrightarrow> ?fmt j \<in> usedIPs d"
      using find_free_Inr[of ?fmt "usedIPs d" 2 ip] by auto
    have out: "\<forall>k. k < 2 \<or> 254 < k \<longrightarrow> ip \<noteq> ?fmt k"
    proof (intro allI impI notI)
      fix k assume k: "k < 2 \<or> 254 < k" and "ip = ?fmt k"
      with i(3) have "i = k" using sprintf_ip_inj[of oa ob oc i k] by simp
      with i(1,2) k show False by arith
    qed
    have "\<exists>i. 2 \<le> i \<and> i \<le> 254 \<and> ip = ?fmt i \<and> (\<forall>j. 2 \<le> j \<and> j < i \<longrightarrow> ?fmt j \<in> usedIPs d)"
      using i by (intro exI[of _ i]) auto
    with i(3,4) out Inr show ?thesis by simp
  qed
  from main full_iff show ?thesis by blast
qed

theorem GetNextAvailableIP_lowest_unused_witness:
  "sscanf_10_8_0 (base_of_subnet ''10.8.0.0/24'') = (10, 8, 0, 0) \<and>
   GetNextAvailableIP sscanf_10_8_0 False two_peers_db ''10.8.0.0/24'' = Inr ''10.8.0.4'' \<and>
   ''10.8.0.2'' \<in> usedIPs two_peers_db \<and> ''10.8.0.3'' \<in> usedIPs two_peers_db \<and>
   ''10.8.0.4'' \<notin> usedIPs two_peers_db \<and>
   sprintf_ip 10 8 0 4 = ''10.8.0.4''"
proof -
  have sc: "sscanf_10_8_0 (base_of_subnet ''10.8.0.0/24'') = (10, 8, 0, 0)"
    by (simp add: sscanf_10_8_0_def)
  have u: "usedIPs two_peers_db = {''10.8.0.2'', ''10.8.0.3''}"
    by (simp add: usedIPs_def two_peers_db_def empty_db_def mk_peer_def)
  have f: "sprintf_ip 10 8 0 2 = ''10.8.0.2''" "sprintf_ip 10 8 0 3 = ''10.8.0.3''"
    "sprintf_ip 10 8 0 4 = ''10.8.0.4''"
    by (simp_all add: sprintf_ip_def itoa_def digits10.simps digit_char_def)
  have r: "GetNextAvailableIP sscanf_10_8_0 False two_peers_db ''10.8.0.0/24'' = Inr ''10.8.0.4''"
    by (simp add: GetNextAvailableIP_def sscanf_10_8_0_def u find_free.simps f)
  from GetNextAvailableIP_lowest_unused[where sscanf = sscanf_10_8_0
      and subnet = "''10.8.0.0/24''" and d = two_peers_db, OF sc] r u f sc
  show ?thesis by simp
qed

section \<open>Peer provisioning: delete and update\<close>

lemmas example_defs = world2_def two_peers_db_def empty_db_def mk_peer_def env0_def lib0_def
  config0_def iface0_def key1_def key2_def key3_def env_wg_down_def world0_def
  env_readback_fails_def env_delete_fails_def api43_def admin_user_def world_fresh_def
  world_api_def env1_def login_admin_def old_token_row_def world_rt_def
  env_token_delete_fails_def env_late_def env_late_delete_fails_def
  env_user_tokens_delete_fails_def new_password_request_def

lemmas ValidateIP_defs = ValidateIP_def ipRegex_MatchString_def is_digit_def undigits_def
  digit_val_def

lemma ValidateIP_examples:
  "ValidateIP ''10.8.0.2''" "ValidateIP ''10.8.0.3''" "ValidateIP ''10.8.0.5''"
  "\<not> ValidateIP ''10.8.0.256''" "\<not> ValidateIP ''10.8.0''" "\<not> ValidateIP ''10.8.0.2 ''"
  by (simp_all add: ValidateIP_defs)

lemma RemovePeer_ok:
  assumes "RemovePeer L f cfg g pk = (None, g1)"
  shows "calls g1 = calls g @ [(WgRemovePeer (Interface cfg) pk, True),
                               (WgQuickSaveCmd (Interface cfg), True)]"
    and "live g1 = filter (\<lambda>e. fst e \<noteq> pk) (live g)"
    and "saved g1 = live g1"
  using assms
  by (auto simp: RemovePeer_def SaveConfig_def run_def split: if_splits)

lemma AddPeer_ok:
  assumes "AddPeer L f cfg g pk ip = (None, g1)"
  shows "calls g1 = calls g @ [(WgSetPeer (Interface cfg) pk (ip @ ''/32''), True),
                               (WgQuickSaveCmd (Interface cfg), True)]"
    and "live g1 = (pk, ip @ ''/32'') # filter (\<lambda>e. fst e \<noteq> pk) (live g)"
    and "saved g1 = live g1"
  using assms
  by (auto simp: AddPeer_def SaveConfig_def run_def split: if_splits)

lemma GetPeerByIP_Inr:
  "GetPeerByIP fault d ip = Inr p \<Longrightarrow> \<not> fault \<and> p \<in> set (peers d) \<and> p_AssignedIP p = ip"
  by (auto simp: GetPeerByIP_def find_Some_iff split: if_splits option.splits)

lemma GetPeerByIP_absent:
  "ip \<notin> usedIPs d \<Longrightarrow> \<exists>e. GetPeerByIP fault d ip = Inl e"
proof (cases "GetPeerByIP fault d ip")
  case (Inr p)
  assume "ip \<notin> usedIPs d"
  with GetPeerByIP_Inr[OF Inr] show ?thesis by (auto simp: usedIPs_def)
qed auto


lemma GetPeerByIP_fault:
  "GetPeerByIP fault d ip = Inr p \<Longrightarrow> GetPeerByIP False d ip = Inr p"
  by (auto simp: GetPeerByIP_def split: if_splits)

lemma update_in_database_wg:
  "update_in_database env w ip req g1 = (resp, w') \<Longrightarrow> wg w' = g1"
  by (auto simp: update_in_database_def split: prod.splits sum.splits)

lemma AddPeer_calls:
  "AddPeer L f cfg g pk ip = (eo, g1) \<Longrightarrow>
     calls g1 = calls g \<or>
     (\<exists>ok rest. calls g1 = calls g @ (WgSetPeer (Interface cfg) pk (ip @ ''/32''), ok) # rest)"
  by (auto simp: AddPeer_def SaveConfig_def run_def split: if_splits)

lemma RemovePeer_calls:
  "RemovePeer L f cfg g pk = (eo, g1) \<Longrightarrow>
     calls g1 = calls g \<or>
     (\<exists>ok rest. calls g1 = calls g @ (WgRemovePeer (Interface cfg) pk, ok) # rest)"
  by (auto simp: RemovePeer_def SaveConfig_def run_def split: if_splits)


text \<open>
  Claim C3. For every delete request keyed by an assigned address:
  \<^item> if the address is well formed and no registry row has it, the response is 404
    "Peer not found", the tool is not invoked (the log of invocations is as before) and
    nothing changes;
  \<^item> if the row is found and the live removal fails (validation of the key, the
    \<^verbatim>\<open>wg set ... remove\<close> command or the save after it), the response is 500 and the
    database is exactly as before: the row is retained unchanged;
  \<^item> the database changes only if the live removal succeeded first: then the two
    commands (remove, save) were run with success and the key is no longer a peer of the
    live interface.
\<close>

theorem DeletePeer_live_removal_first:
  assumes r: "PeerHandler_DeletePeer L env w ip = (resp, w')"
  shows "(ValidateIP ip \<and> ip \<notin> usedIPs (db w) \<longrightarrow>
            resp = Failure 404 ''Peer not found'' None \<and> calls (wg w') = calls (wg w) \<and> w' = w) \<and>
         (\<forall>p e g1. ValidateIP ip \<and> GetPeerByIP (fails env SelectPeerByIP) (db w) ip = Inr p \<and>
              RemovePeer L (fails env) (config w) (wg w) (p_PublicKey p) = (Some e, g1) \<longrightarrow>
            resp = Failure 500 ''Failed to remove peer from WireGuard'' (Some e) \<and> db w' = db w) \<and>
         (db w' \<noteq> db w \<longrightarrow>
            (\<exists>p g1. GetPeerByIP (fails env SelectPeerByIP) (db w) ip = Inr p \<and>
               RemovePeer L (fails env) (config w) (wg w) (p_PublicKey p) = (None, g1) \<and>
               wg w' = g1 \<and>
               calls (wg w') = calls (wg w) @
                 [(WgRemovePeer (Interface (config w)) (p_PublicKey p), True),
                  (WgQuickSaveCmd (Interface (config w)), True)] \<and>
               p_PublicKey p \<notin> fst ` set (live (wg w'))))"
proof (intro conjI allI impI)
  assume a: "ValidateIP ip \<and> ip \<notin> usedIPs (db w)"
  then obtain e where "GetPeerByIP (fails env SelectPeerByIP) (db w) ip = Inl e"
    using GetPeerByIP_absent by blast
  with a r have "resp = Failure 404 ''Peer not found'' None \<and> w' = w"
    by (auto simp: PeerHandler_DeletePeer_def)
  then show "resp = Failure 404 ''Peer not found'' None" "calls (wg w') = calls (wg w)" "w' = w"
    by simp_all
next
  fix p e g1
  assume a: "ValidateIP ip \<and> GetPeerByIP (fails env SelectPeerByIP) (db w) ip = Inr p \<and>
      RemovePeer L (fails env) (config w) (wg w) (p_PublicKey p) = (Some e, g1)"
  with r show "resp = Failure 500 ''Failed to remove peer from WireGuard'' (Some e)" "db w' = db w"
    by (auto simp: PeerHandler_DeletePeer_def)
next
  assume ch: "db w' \<noteq> db w"
  from ch r have v: "ValidateIP ip" by (auto simp: PeerHandler_DeletePeer_def split: if_splits)
  from ch r v obtain p where p: "GetPeerByIP (fails env SelectPeerByIP) (db w) ip = Inr p"
    by (cases "GetPeerByIP (fails env SelectPeerByIP) (db w) ip")
       (auto simp: PeerHandler_DeletePeer_def)
  obtain eo g1 where rp: "RemovePeer L (fails env) (config w) (wg w) (p_PublicKey p) = (eo, g1)"
    by (cases "RemovePeer L (fails env) (config w) (wg w) (p_PublicKey p)")
  from ch r v p rp have none: "eo = None"
    by (cases eo) (auto simp: PeerHandler_DeletePeer_def)
  from r v p rp none have g: "wg w' = g1"
    by (auto simp: PeerHandler_DeletePeer_def split: prod.splits option.splits)
  from rp none have ok: "RemovePeer L (fails env) (config w) (wg w) (p_PublicKey p) = (None, g1)"
    by simp
  have "p_PublicKey p \<notin> fst ` set (live g1)"
    using RemovePeer_ok(2)[OF ok] by auto
  with p ok g RemovePeer_ok(1)[OF ok]
  show "\<exists>p g1. GetPeerByIP (fails env SelectPeerByIP) (db w) ip = Inr p \<and>
               RemovePeer L (fails env) (config w) (wg w) (p_PublicKey p) = (None, g1) \<and>
               wg w' = g1 \<and>
               calls (wg w') = calls (wg w) @
                 [(WgRemovePeer (Interface (config w)) (p_PublicKey p), True),
                  (WgQuickSaveCmd (Interface (config w)), True)] \<and>
               p_PublicKey p \<notin> fst ` set (live (wg w'))"
    by (intro exI[of _ p] exI[of _ g1]) simp
qed

theorem DeletePeer_live_removal_first_witness:
  "ValidateIP ''10.8.0.5'' \<and> ''10.8.0.5'' \<notin> usedIPs (db world2) \<and>
   PeerHandler_DeletePeer lib0 env0 world2 ''10.8.0.5'' =
     (Failure 404 ''Peer not found'' None, world2) \<and>
   GetPeerByIP (fails env_wg_down SelectPeerByIP) (db world2) ''10.8.0.2'' =
     Inr (mk_peer 1 ''laptop'' key1 ''10.8.0.2'' True) \<and>
   fst (RemovePeer lib0 (fails env_wg_down) (config world2) (wg world2) key1) = Some ErrRemovePeer \<and>
   fst (PeerHandler_DeletePeer lib0 env_wg_down world2 ''10.8.0.2'') =
     Failure 500 ''Failed to remove peer from WireGuard'' (Some ErrRemovePeer) \<and>
   db (snd (PeerHandler_DeletePeer lib0 env_wg_down world2 ''10.8.0.2'')) = db world2 \<and>
   fst (PeerHandler_DeletePeer lib0 env0 world2 ''10.8.0.2'') =
     Reply 200 ''Peer deleted successfully'' \<and>
   db (snd (PeerHandler_DeletePeer lib0 env0 world2 ''10.8.0.2'')) \<noteq> db world2 \<and>
   calls (wg (snd (PeerHandler_DeletePeer lib0 env0 world2 ''10.8.0.2''))) =
     [(WgRemovePeer ''wg0'' key1, True), (WgQuickSaveCmd ''wg0'', True)] \<and>
   live (wg (snd (PeerHandler_DeletePeer lib0 env0 world2 ''10.8.0.2''))) = []"
proof -
  have a: "PeerHandler_DeletePeer lib0 env0 world2 ''10.8.0.5'' =
      (Failure 404 ''Peer not found'' None, world2)"
    by (simp add: PeerHandler_DeletePeer_def ValidateIP_examples GetPeerByIP_def example_defs)
  have b: "PeerHandler_DeletePeer lib0 env0 world2 ''10.8.0.2'' =
     (Reply 200 ''Peer deleted successfully'',
      world2\<lparr>db := two_peers_db\<lparr>peers := [mk_peer 2 ''phone'' key2 ''10.8.0.3'' False]\<rparr>,
             wg := \<lparr>live = [], saved = [],
                    calls = [(WgRemovePeer ''wg0'' key1, True), (WgQuickSaveCmd ''wg0'', True)]\<rparr>\<rparr>)"
    by (simp add: PeerHandler_DeletePeer_def ValidateIP_examples GetPeerByIP_def RemovePeer_def
        ValidatePublicKey_def SaveConfig_def run_def DB_DeletePeer_def example_defs)
  have c: "PeerHandler_DeletePeer lib0 env_wg_down world2 ''10.8.0.2'' =
     (Failure 500 ''Failed to remove peer from WireGuard'' (Some ErrRemovePeer),
      world2\<lparr>wg := \<lparr>live = [(key1, ''10.8.0.2/32'')], saved = [(key1, ''10.8.0.2/32'')],
                    calls = [(WgRemovePeer ''wg0'' key1, False)]\<rparr>\<rparr>)"
    by (simp add: PeerHandler_DeletePeer_def ValidateIP_examples GetPeerByIP_def RemovePeer_def
        ValidatePublicKey_def SaveConfig_def run_def DB_DeletePeer_def example_defs)
  have d: "GetPeerByIP (fails env_wg_down SelectPeerByIP) (db world2) ''10.8.0.2'' =
      Inr (mk_peer 1 ''laptop'' key1 ''10.8.0.2'' True)"
    "fst (RemovePeer lib0 (fails env_wg_down) (config world2) (wg world2) key1) = Some ErrRemovePeer"
    "''10.8.0.5'' \<notin> usedIPs (db world2)"
    "db (world2\<lparr>db := two_peers_db\<lparr>peers := [mk_peer 2 ''phone'' key2 ''10.8.0.3'' False]\<rparr>,
             wg := \<lparr>live = [], saved = [],
                    calls = [(WgRemovePeer ''wg0'' key1, True), (WgQuickSaveCmd ''wg0'', True)]\<rparr>\<rparr>)
       \<noteq> db world2"
    by (simp_all add: GetPeerByIP_def RemovePeer_def ValidatePublicKey_def SaveConfig_def run_def
        usedIPs_def example_defs)
  from DeletePeer_live_removal_first[OF a] DeletePeer_live_removal_first[OF b]
    DeletePeer_live_removal_first[OF c] a b c d ValidateIP_examples
  show ?thesis by simp
qed

text \<open>
  Claim C4. For every update request on an existing peer whose requested enabled flag
  equals the flag of the peer's registry row, the update leaves the live interface and
  the log of tool invocations as they were: no invocation is made. A request that makes
  an invocation carries a flag that differs from the persisted one, and its first
  invocation is the add command (flag true) or the remove command (flag false) for that
  peer's key.
\<close>

theorem UpdatePeer_toggle_idempotent:
  assumes r: "PeerHandler_UpdatePeer L env w ip body = (resp, w')"
  shows "(\<forall>req peer. body = Some req \<and> GetPeerByIP False (db w) ip = Inr peer \<and>
             upr_Enabled req = Some (p_Enabled peer) \<longrightarrow>
           wg w' = wg w \<and> calls (wg w') = calls (wg w)) \<and>
         (calls (wg w') \<noteq> calls (wg w) \<longrightarrow>
           (\<exists>req peer b ok rest. body = Some req \<and> GetPeerByIP False (db w) ip = Inr peer \<and>
              upr_Enabled req = Some b \<and> b \<noteq> p_Enabled peer \<and>
              calls (wg w') = calls (wg w) @
                ((if b then WgSetPeer (Interface (config w)) (p_PublicKey peer)
                              (p_AssignedIP peer @ ''/32'')
                  else WgRemovePeer (Interface (config w)) (p_PublicKey peer)), ok) # rest))"
proof (intro conjI allI impI)
  fix req peer
  assume a: "body = Some req \<and> GetPeerByIP False (db w) ip = Inr peer \<and>
             upr_Enabled req = Some (p_Enabled peer)"
  have "wg w' = wg w"
  proof (cases "GetPeerByIP (fails env SelectPeerByIP) (db w) ip")
    case (Inl e)
    with r a show ?thesis by (auto simp: PeerHandler_UpdatePeer_def split: if_splits)
  next
    case (Inr p)
    with a have "p = peer" using GetPeerByIP_fault[OF Inr] by simp
    with r a Inr show ?thesis
      by (auto simp: PeerHandler_UpdatePeer_def split: if_splits dest: update_in_database_wg)
  qed
  then show "wg w' = wg w" "calls (wg w') = calls (wg w)" by simp_all
next
  assume ch: "calls (wg w') \<noteq> calls (wg w)"
  from ch r have v: "ValidateIP ip" by (auto simp: PeerHandler_UpdatePeer_def split: if_splits)
  from ch r v obtain req where req: "body = Some req"
    by (cases body) (auto simp: PeerHandler_UpdatePeer_def)
  from ch r v req obtain peer where p: "GetPeerByIP (fails env SelectPeerByIP) (db w) ip = Inr peer"
    by (cases "GetPeerByIP (fails env SelectPeerByIP) (db w) ip")
       (auto simp: PeerHandler_UpdatePeer_def)
  from ch r v req p obtain b where b: "upr_Enabled req = Some b"
    by (cases "upr_Enabled req")
       (auto simp: PeerHandler_UpdatePeer_def dest: update_in_database_wg)
  from ch r v req p b have ne: "b \<noteq> p_Enabled peer"
    by (auto simp: PeerHandler_UpdatePeer_def dest: update_in_database_wg split: if_splits)
  have "\<exists>ok rest. calls (wg w') = calls (wg w) @
                ((if b then WgSetPeer (Interface (config w)) (p_PublicKey peer)
                              (p_AssignedIP peer @ ''/32'')
                  else WgRemovePeer (Interface (config w)) (p_PublicKey peer)), ok) # rest"
  proof (cases b)
    case True
    obtain eo g1 where ap:
      "AddPeer L (fails env) (config w) (wg w) (p_PublicKey peer) (p_AssignedIP peer) = (eo, g1)"
      by (cases "AddPeer L (fails env) (config w) (wg w) (p_PublicKey peer) (p_AssignedIP peer)")
    from r v req p b ne True ap have "wg w' = g1"
      by (cases eo) (auto simp: PeerHandler_UpdatePeer_def dest: update_in_database_wg)
    with AddPeer_calls[OF ap] ch True show ?thesis by auto
  next
    case False
    obtain eo g1 where rp:
      "RemovePeer L (fails env) (config w) (wg w) (p_PublicKey peer) = (eo, g1)"
      by (cases "RemovePeer L (fails env) (config w) (wg w) (p_PublicKey peer)")
    from r v req p b ne False rp have "wg w' = g1"
      by (cases eo) (auto simp: PeerHandler_UpdatePeer_def dest: update_in_database_wg)
    with RemovePeer_calls[OF rp] ch False show ?thesis by auto
  qed
  with req GetPeerByIP_fault[OF p] b ne
  show "\<exists>req peer b ok rest. body = Some req \<and> GetPeerByIP False (db w) ip = Inr peer \<and>
              upr_Enabled req = Some b \<and> b \<noteq> p_Enabled peer \<and>
              calls (wg w') = calls (wg w) @
                ((if b then WgSetPeer (Interface (config w)) (p_PublicKey peer)
                              (p_AssignedIP peer @ ''/32'')
                  else WgRemovePeer (Interface (config w)) (p_PublicKey peer)), ok) # rest"
    by blast
qed


theorem UpdatePeer_toggle_idempotent_witness:
  "GetPeerByIP False (db world2) ''10.8.0.2'' = Inr (mk_peer 1 ''laptop'' key1 ''10.8.0.2'' True) \<and>
   p_Enabled (mk_peer 1 ''laptop'' key1 ''10.8.0.2'' True) \<and>
   wg (snd (PeerHandler_UpdatePeer lib0 env0 world2 ''10.8.0.2''
              (Some \<lparr>upr_Name = Some ''desk'', upr_Enabled = Some True\<rparr>))) = wg world2 \<and>
   calls (wg (snd (PeerHandler_UpdatePeer lib0 env0 world2 ''10.8.0.2''
              (Some \<lparr>upr_Name = Some ''desk'', upr_Enabled = Some True\<rparr>)))) = [] \<and>
   calls (wg (snd (PeerHandler_UpdatePeer lib0 env0 world2 ''10.8.0.2''
              (Some \<lparr>upr_Name = None, upr_Enabled = Some False\<rparr>)))) =
     [(WgRemovePeer ''wg0'' key1, True), (WgQuickSaveCmd ''wg0'', True)] \<and>
   calls (wg (snd (PeerHandler_UpdatePeer lib0 env0 world2 ''10.8.0.3''
              (Some \<lparr>upr_Name = None, upr_Enabled = Some True\<rparr>)))) =
     [(WgSetPeer ''wg0'' key2 ''10.8.0.3/32'', True), (WgQuickSaveCmd ''wg0'', True)]"
proof -
  let ?same = "PeerHandler_UpdatePeer lib0 env0 world2 ''10.8.0.2''
                 (Some \<lparr>upr_Name = Some ''desk'', upr_Enabled = Some True\<rparr>)"
  let ?off = "PeerHandler_UpdatePeer lib0 env0 world2 ''10.8.0.2''
                 (Some \<lparr>upr_Name = None, upr_Enabled = Some False\<rparr>)"
  let ?on = "PeerHandler_UpdatePeer lib0 env0 world2 ''10.8.0.3''
                 (Some \<lparr>upr_Name = None, upr_Enabled = Some True\<rparr>)"
  have p: "GetPeerByIP False (db world2) ''10.8.0.2'' = Inr (mk_peer 1 ''laptop'' key1 ''10.8.0.2'' True)"
    by (simp add: GetPeerByIP_def example_defs)
  have c: "calls (wg world2) = []" by (simp add: example_defs)
  have off: "calls (wg (snd ?off)) = [(WgRemovePeer ''wg0'' key1, True), (WgQuickSaveCmd ''wg0'', True)]"
    by (simp add: PeerHandler_UpdatePeer_def update_in_database_def DB_UpdatePeer_def
        ValidateIP_examples GetPeerByIP_def RemovePeer_def ValidatePublicKey_def SaveConfig_def
        run_def example_defs)
  have on: "calls (wg (snd ?on)) = [(WgSetPeer ''wg0'' key2 ''10.8.0.3/32'', True), (WgQuickSaveCmd ''wg0'', True)]"
    by (simp add: PeerHandler_UpdatePeer_def update_in_database_def DB_UpdatePeer_def
        ValidateIP_examples GetPeerByIP_def AddPeer_def ValidatePublicKey_def SaveConfig_def
        run_def example_defs)
  have "?same = (fst ?same, snd ?same)" by simp
  from UpdatePeer_toggle_idempotent[OF this] p c off on
  show ?thesis by (simp add: mk_peer_def)
qed

section \<open>Peer provisioning: create\<close>
lemma GetNextAvailableIP_unused:
  "GetNextAvailableIP sscanf fault d subnet = Inr ip \<Longrightarrow> ip \<notin> usedIPs d"
  by (auto simp: GetNextAvailableIP_def split: prod.splits if_splits dest: find_free_Inr)

lemma find_append_last:
  "find P (xs @ [x]) = (case find P xs of Some y \<Rightarrow> Some y | None \<Rightarrow> if P x then Some x else None)"
  by (induction xs) auto

lemma find_fresh_id:
  "list_all (\<lambda>p. p_ID p \<le> n) xs \<Longrightarrow> p_ID row = n + 1 \<Longrightarrow>
     find (\<lambda>p. p_ID p = n + 1) (xs @ [row]) = Some row"
  by (induction xs) auto

lemma find_last_present:
  "P x \<Longrightarrow> find P (xs @ [x]) \<noteq> None"
  by (induction xs) auto

lemma DB_CreatePeer_Inl:
  assumes "DB_CreatePeer f t d peer = (Inl e, d1)" "\<not> f LastInsertId" "\<not> f SelectPeerByID"
  shows "d1 = d"
  using assms find_last_present[of "\<lambda>p. p_ID p = peer_seq d + 1"
      "peer\<lparr>p_ID := peer_seq d + 1, p_CreatedAt := t, p_UpdatedAt := t\<rparr>" "peers d"]
  by (auto simp: DB_CreatePeer_def GetPeerByID_def Let_def split: if_splits option.splits)

lemma DB_CreatePeer_Inr:
  assumes "DB_CreatePeer f t d peer = (Inr created, d1)"
  shows "peers d1 = peers d @ [peer\<lparr>p_ID := peer_seq d + 1, p_CreatedAt := t, p_UpdatedAt := t\<rparr>]"
    and "peer_seq d1 = peer_seq d + 1"
    and "\<not> list_ex (\<lambda>q. p_PublicKey q = p_PublicKey peer \<or> p_AssignedIP q = p_AssignedIP peer) (peers d)"
    and "peer_ids_issued d \<Longrightarrow> created = peer\<lparr>p_ID := peer_seq d + 1, p_CreatedAt := t, p_UpdatedAt := t\<rparr>"
proof -
  from assms show "peers d1 = peers d @ [peer\<lparr>p_ID := peer_seq d + 1, p_CreatedAt := t, p_UpdatedAt := t\<rparr>]"
    "peer_seq d1 = peer_seq d + 1"
    "\<not> list_ex (\<lambda>q. p_PublicKey q = p_PublicKey peer \<or> p_AssignedIP q = p_AssignedIP peer) (peers d)"
    by (auto simp: DB_CreatePeer_def Let_def split: if_splits)
  assume "peer_ids_issued d"
  then have "find (\<lambda>p. p_ID p = peer_seq d + 1)
       (peers d @ [peer\<lparr>p_ID := peer_seq d + 1, p_CreatedAt := t, p_UpdatedAt := t\<rparr>]) =
       Some (peer\<lparr>p_ID := peer_seq d + 1, p_CreatedAt := t, p_UpdatedAt := t\<rparr>)"
    by (intro find_fresh_id) (simp_all add: peer_ids_issued_def)
  with assms show "created = peer\<lparr>p_ID := peer_seq d + 1, p_CreatedAt := t, p_UpdatedAt := t\<rparr>"
    by (auto simp: DB_CreatePeer_def GetPeerByID_def Let_def split: if_splits)
qed

lemma filter_rollback:
  "\<not> list_ex (\<lambda>q. p_PublicKey q = pk \<or> p_AssignedIP q = ip) xs \<Longrightarrow> p_AssignedIP row = ip \<Longrightarrow>
     filter (\<lambda>p. p_AssignedIP p \<noteq> ip) (xs @ [row]) = xs"
  by (induction xs) auto

lemma DB_DeletePeer_rows:
  "\<not> f DeletePeerRow \<Longrightarrow>
     peers (snd (DB_DeletePeer f d ip)) = filter (\<lambda>p. p_AssignedIP p \<noteq> ip) (peers d) \<and>
     peer_seq (snd (DB_DeletePeer f d ip)) = peer_seq d"
  by (simp add: DB_DeletePeer_def Let_def)

lemma DB_DeletePeer_fault:
  "f DeletePeerRow \<Longrightarrow> DB_DeletePeer f d ip = (Some ErrStorage, d)"
  by (simp add: DB_DeletePeer_def)

text \<open>The create handler, step by step: what each outcome of the sequence gives.\<close>

lemma CreatePeer_early:
  "PeerHandler_CreatePeer L env w None = (Failure 400 ''Invalid request body'' None, w)"
  "fails env KeyGen \<Longrightarrow>
     PeerHandler_CreatePeer L env w (Some req) = (Failure 500 ''Failed to generate key pair'' None, w)"
  "\<not> fails env KeyGen \<Longrightarrow>
     GetNextAvailableIP (sscanf_ip L) (fails env QueryAssignedIPs) (db w) (Subnet (config w)) = Inl e \<Longrightarrow>
     PeerHandler_CreatePeer L env w (Some req) = (Failure 500 ''Failed to assign IP address'' (Some e), w)"
  by (simp_all add: PeerHandler_CreatePeer_def GenerateKeyPair_def split: prod.splits)

lemma CreatePeer_insert_failed:
  "\<not> fails env KeyGen \<Longrightarrow> keypair env = (priv, pub) \<Longrightarrow>
   GetNextAvailableIP (sscanf_ip L) (fails env QueryAssignedIPs) (db w) (Subnet (config w)) = Inr ip \<Longrightarrow>
   DB_CreatePeer (fails env) (now env) (db w) (new_peer (cpr_Name req) priv pub ip) = (Inl e, d1) \<Longrightarrow>
   PeerHandler_CreatePeer L env w (Some req) =
     (Failure 500 ''Failed to create peer'' (Some e), w\<lparr>db := d1\<rparr>)"
  by (simp add: PeerHandler_CreatePeer_def GenerateKeyPair_def)

lemma CreatePeer_add_failed:
  "\<not> fails env KeyGen \<Longrightarrow> keypair env = (priv, pub) \<Longrightarrow>
   GetNextAvailableIP (sscanf_ip L) (fails env QueryAssignedIPs) (db w) (Subnet (config w)) = Inr ip \<Longrightarrow>
   DB_CreatePeer (fails env) (now env) (db w) (new_peer (cpr_Name req) priv pub ip) = (Inr created, d1) \<Longrightarrow>
   AddPeer L (fails env) (config w) (wg w) pub ip = (Some e, g1) \<Longrightarrow>
   PeerHandler_CreatePeer L env w (Some req) =
     (Failure 500 ''Failed to add peer to WireGuard'' (Some e),
      w\<lparr>db := snd (DB_DeletePeer (fails env) d1 ip), wg := g1\<rparr>)"
  by (simp add: PeerHandler_CreatePeer_def GenerateKeyPair_def)

lemma CreatePeer_created:
  "\<not> fails env KeyGen \<Longrightarrow> keypair env = (priv, pub) \<Longrightarrow>
   GetNextAvailableIP (sscanf_ip L) (fails env QueryAssignedIPs) (db w) (Subnet (config w)) = Inr ip \<Longrightarrow>
   DB_CreatePeer (fails env) (now env) (db w) (new_peer (cpr_Name req) priv pub ip) = (Inr created, d1) \<Longrightarrow>
   AddPeer L (fails env) (config w) (wg w) pub ip = (None, g1) \<Longrightarrow>
   PeerHandler_CreatePeer L env w (Some req) =
     (Reply 201 (peer_response created), w\<lparr>db := d1, wg := g1\<rparr>)"
  by (simp add: PeerHandler_CreatePeer_def GenerateKeyPair_def)

lemma CreatePeer_cases:
  assumes r: "PeerHandler_CreatePeer L env w body = (resp, w')"
  obtains
    (early) st msg e where "resp = Failure st msg e" "msg \<noteq> ''Failed to add peer to WireGuard''"
      "w' = w"
  | (insert_failed) req priv pub ip e d1 where
      "body = Some req" "keypair env = (priv, pub)"
      "GetNextAvailableIP (sscanf_ip L) (fails env QueryAssignedIPs) (db w) (Subnet (config w)) = Inr ip"
      "DB_CreatePeer (fails env) (now env) (db w) (new_peer (cpr_Name req) priv pub ip) = (Inl e, d1)"
      "resp = Failure 500 ''Failed to create peer'' (Some e)" "w' = w\<lparr>db := d1\<rparr>"
  | (add_failed) req priv pub ip created d1 e g1 where
      "body = Some req" "keypair env = (priv, pub)"
      "GetNextAvailableIP (sscanf_ip L) (fails env QueryAssignedIPs) (db w) (Subnet (config w)) = Inr ip"
      "DB_CreatePeer (fails env) (now env) (db w) (new_peer (cpr_Name req) priv pub ip) = (Inr created, d1)"
      "AddPeer L (fails env) (config w) (wg w) pub ip = (Some e, g1)"
      "resp = Failure 500 ''Failed to add peer to WireGuard'' (Some e)"
      "w' = w\<lparr>db := snd (DB_DeletePeer (fails env) d1 ip), wg := g1\<rparr>"
  | (created) req priv pub ip created d1 g1 where
      "body = Some req" "keypair env = (priv, pub)"
      "GetNextAvailableIP (sscanf_ip L) (fails env QueryAssignedIPs) (db w) (Subnet (config w)) = Inr ip"
      "DB_CreatePeer (fails env) (now env) (db w) (new_peer (cpr_Name req) priv pub ip) = (Inr created, d1)"
      "AddPeer L (fails env) (config w) (wg w) pub ip = (None, g1)"
      "resp = Reply 201 (peer_response created)" "w' = w\<lparr>db := d1, wg := g1\<rparr>"
proof (cases body)
  case None
  with r CreatePeer_early(1)[of L env w]
  have "resp = Failure 400 ''Invalid request body'' None" "w' = w" by simp_all
  then show ?thesis by (intro early[of 400 "''Invalid request body''" None]) simp_all
next
  case (Some req)
  show ?thesis
  proof (cases "fails env KeyGen")
    case True
    with r Some CreatePeer_early(2)[of env L w req]
    have "resp = Failure 500 ''Failed to generate key pair'' None" "w' = w" by simp_all
    then show ?thesis by (intro early[of 500 "''Failed to generate key pair''" None]) simp_all
  next
    case nk: False
    obtain priv pub where kp: "keypair env = (priv, pub)" by (cases "keypair env")
    show ?thesis
    proof (cases "GetNextAvailableIP (sscanf_ip L) (fails env QueryAssignedIPs) (db w) (Subnet (config w))")
      case (Inl e)
      with r Some CreatePeer_early(3)[OF nk Inl, of req]
      have "resp = Failure 500 ''Failed to assign IP address'' (Some e)" "w' = w" by simp_all
      then show ?thesis by (intro early[of 500 "''Failed to assign IP address''" "Some e"]) simp_all
    next
      case (Inr ip)
      obtain res d1 where cp:
        "DB_CreatePeer (fails env) (now env) (db w) (new_peer (cpr_Name req) priv pub ip) = (res, d1)"
        by (cases "DB_CreatePeer (fails env) (now env) (db w) (new_peer (cpr_Name req) priv pub ip)")
      show ?thesis
      proof (cases res)
        case (Inl e)
        with cp have cp': "DB_CreatePeer (fails env) (now env) (db w) (new_peer (cpr_Name req) priv pub ip) = (Inl e, d1)"
          by simp
        from r Some CreatePeer_insert_failed[OF nk kp Inr cp']
        have "resp = Failure 500 ''Failed to create peer'' (Some e)" "w' = w\<lparr>db := d1\<rparr>"
          by simp_all
        then show ?thesis by (rule insert_failed[OF Some kp Inr cp'])
      next
        case (Inr created)
        with cp have cp': "DB_CreatePeer (fails env) (now env) (db w) (new_peer (cpr_Name req) priv pub ip) = (Inr created, d1)"
          by simp
        obtain eo g1 where ap: "AddPeer L (fails env) (config w) (wg w) pub ip = (eo, g1)"
          by (cases "AddPeer L (fails env) (config w) (wg w) pub ip")
        show ?thesis
        proof (cases eo)
          case None
          with ap have ap': "AddPeer L (fails env) (config w) (wg w) pub ip = (None, g1)" by simp
          from r Some CreatePeer_created[OF nk kp \<open>GetNextAvailableIP _ _ _ _ = Inr ip\<close> cp' ap']
          have "resp = Reply 201 (peer_response created)" "w' = w\<lparr>db := d1, wg := g1\<rparr>"
            by simp_all
          then show ?thesis
            by (rule created[OF Some kp \<open>GetNextAvailableIP _ _ _ _ = Inr ip\<close> cp' ap'])
        next
          case (Some e)
          with ap have ap': "AddPeer L (fails env) (config w) (wg w) pub ip = (Some e, g1)" by simp
          from r \<open>body = Some req\<close>
            CreatePeer_add_failed[OF nk kp \<open>GetNextAvailableIP _ _ _ _ = Inr ip\<close> cp' ap']
          have "resp = Failure 500 ''Failed to add peer to WireGuard'' (Some e)"
            "w' = w\<lparr>db := snd (DB_DeletePeer (fails env) d1 ip), wg := g1\<rparr>"
            by simp_all
          then show ?thesis
            by (rule add_failed[OF \<open>body = Some req\<close> kp \<open>GetNextAvailableIP _ _ _ _ = Inr ip\<close> cp' ap'])
        qed
      qed
    qed
  qed
qed

text \<open>
  Claim C1, as amended. For every create request:
  \<^item> a 201 response describes a row that is in the registry, with the generated public
    key, an address no row had, enabled, and that key is a peer of the live interface:
    the add command and the save after it were run with success (so a live add that
    fails never gives a success response);
  \<^item> when the live add fails after the insert, the response is 500 "Failed to add peer to
    WireGuard", the insert had taken place (the id counter advanced) and, unless the
    storage engine fails the compensating delete, the rows of the registry are those
    from before the request;
  \<^item> a failure response leaves the rows of the registry as they were, unless the storage
    engine fails the compensating delete, or fails the insert's own read-back
    (\<^verbatim>\<open>LastInsertId\<close>, \<^verbatim>\<open>GetPeerByID\<close>) after the INSERT has taken effect.
  The last exception is what the claim as stated lacks: see
  \<open>CreatePeer_readback_failure_leaves_row\<close>.
\<close>

theorem CreatePeer_atomic_with_rollback:
  assumes r: "PeerHandler_CreatePeer L env w body = (resp, w')"
  shows "(\<forall>pr. resp = Reply 201 pr \<and> peer_ids_issued (db w) \<longrightarrow>
            (\<exists>p. p \<in> set (peers (db w')) \<and> peer_response p = pr \<and>
                 p_PublicKey p = snd (keypair env) \<and> p_AssignedIP p \<notin> usedIPs (db w) \<and>
                 p_Enabled p \<and>
                 (p_PublicKey p, p_AssignedIP p @ ''/32'') \<in> set (live (wg w')) \<and>
                 calls (wg w') = calls (wg w) @
                   [(WgSetPeer (Interface (config w)) (p_PublicKey p) (p_AssignedIP p @ ''/32''), True),
                    (WgQuickSaveCmd (Interface (config w)), True)])) \<and>
         (\<forall>e. resp = Failure 500 ''Failed to add peer to WireGuard'' e \<and> \<not> fails env DeletePeerRow \<longrightarrow>
            peer_seq (db w') = peer_seq (db w) + 1 \<and> peers (db w') = peers (db w)) \<and>
         (\<forall>st msg e. resp = Failure st msg e \<and> \<not> fails env DeletePeerRow \<and>
              \<not> fails env LastInsertId \<and> \<not> fails env SelectPeerByID \<longrightarrow>
            peers (db w') = peers (db w))"
  using r
proof (cases rule: CreatePeer_cases)
  case (early st msg e)
  then show ?thesis by simp
next
  case (insert_failed req priv pub ip e d1)
  have "\<not> fails env LastInsertId \<and> \<not> fails env SelectPeerByID \<longrightarrow> d1 = db w"
    using DB_CreatePeer_Inl[OF insert_failed(4)] by blast
  with insert_failed(5,6) show ?thesis by auto
next
  case (add_failed req priv pub ip created d1 e g1)
  note c = DB_CreatePeer_Inr[OF add_failed(4)]
  have rows: "\<not> fails env DeletePeerRow \<longrightarrow>
      peers (snd (DB_DeletePeer (fails env) d1 ip)) = peers (db w) \<and>
      peer_seq (snd (DB_DeletePeer (fails env) d1 ip)) = peer_seq (db w) + 1"
  proof
    assume nf: "\<not> fails env DeletePeerRow"
    have "filter (\<lambda>p. p_AssignedIP p \<noteq> ip) (peers d1) = peers (db w)"
      unfolding c(1) using c(3) by (intro filter_rollback[where pk = pub]) simp_all
    with DB_DeletePeer_rows[where f = "fails env" and d = d1 and ip = ip] nf c(2)
    show "peers (snd (DB_DeletePeer (fails env) d1 ip)) = peers (db w) \<and>
      peer_seq (snd (DB_DeletePeer (fails env) d1 ip)) = peer_seq (db w) + 1" by simp
  qed
  with add_failed(6,7) show ?thesis by auto
next
  case (created req priv pub ip c d1 g1)
  note cr = DB_CreatePeer_Inr[OF created(4)]
  note ap = AddPeer_ok[OF created(5)]
  have unused: "ip \<notin> usedIPs (db w)" using GetNextAvailableIP_unused[OF created(3)] .
  have "peer_ids_issued (db w) \<longrightarrow>
      (\<exists>p. p \<in> set (peers (db w')) \<and> peer_response p = peer_response c \<and>
           p_PublicKey p = snd (keypair env) \<and> p_AssignedIP p \<notin> usedIPs (db w) \<and>
           p_Enabled p \<and>
           (p_PublicKey p, p_AssignedIP p @ ''/32'') \<in> set (live (wg w')) \<and>
           calls (wg w') = calls (wg w) @
             [(WgSetPeer (Interface (config w)) (p_PublicKey p) (p_AssignedIP p @ ''/32''), True),
              (WgQuickSaveCmd (Interface (config w)), True)])"
  proof
    assume "peer_ids_issued (db w)"
    then have ceq: "c = (new_peer (cpr_Name req) priv pub ip)\<lparr>p_ID := peer_seq (db w) + 1,
        p_CreatedAt := now env, p_UpdatedAt := now env\<rparr>"
      by (rule cr(4))
    have "c \<in> set (peers (db w'))" using created(7) cr(1) ceq by simp
    moreover have "p_PublicKey c = snd (keypair env)" "p_AssignedIP c = ip" "p_Enabled c"
      using ceq created(2) by simp_all
    ultimately show "\<exists>p. p \<in> set (peers (db w')) \<and> peer_response p = peer_response c \<and>
           p_PublicKey p = snd (keypair env) \<and> p_AssignedIP p \<notin> usedIPs (db w) \<and>
           p_Enabled p \<and>
           (p_PublicKey p, p_AssignedIP p @ ''/32'') \<in> set (live (wg w')) \<and>
           calls (wg w') = calls (wg w) @
             [(WgSetPeer (Interface (config w)) (p_PublicKey p) (p_AssignedIP p @ ''/32''), True),
              (WgQuickSaveCmd (Interface (config w)), True)]"
      using unused ap(1,2) created(2,7) by (intro exI[of _ c]) simp
  qed
  with created(6) show ?thesis by simp
qed

lemma sprintf_examples:
  "sprintf_ip 10 8 0 2 = ''10.8.0.2''" "sprintf_ip 10 8 0 3 = ''10.8.0.3''"
  "sprintf_ip 10 8 0 4 = ''10.8.0.4''"
  by (simp_all add: sprintf_ip_def itoa_def digits10.simps digit_char_def)

lemma alloc_world0:
  "GetNextAvailableIP sscanf_10_8_0 False empty_db ''10.8.0.0/24'' = Inr ''10.8.0.2''"
  by (simp add: GetNextAvailableIP_def sscanf_10_8_0_def usedIPs_def empty_db_def
      find_free.simps sprintf_examples)

lemma alloc_world2:
  "GetNextAvailableIP sscanf_10_8_0 False two_peers_db ''10.8.0.0/24'' = Inr ''10.8.0.4''"
  by (simp add: GetNextAvailableIP_def sscanf_10_8_0_def usedIPs_def two_peers_db_def empty_db_def
      mk_peer_def find_free.simps sprintf_examples)

lemmas CreatePeer_eval = PeerHandler_CreatePeer_def GenerateKeyPair_def GetNextAvailableIP_def
  sscanf_10_8_0_def usedIPs_def find_free.simps sprintf_examples DB_CreatePeer_def GetPeerByID_def
  AddPeer_def ValidatePublicKey_def ValidateIP_examples SaveConfig_def run_def DB_DeletePeer_def
  peer_response_def Let_def

lemma ValidateIP_4: "ValidateIP ''10.8.0.4''"
  by (simp add: ValidateIP_defs)

text \<open>
  The claim as stated fails: with an empty registry, a request whose INSERT succeeds and
  whose read-back \<^verbatim>\<open>SELECT ... WHERE id = ?\<close> the storage engine fails gets the response
  500 "Failed to create peer"; the compensating delete is not failed (it is never run),
  and the registry holds a new, enabled row whose key is not in the live interface.
\<close>

theorem CreatePeer_readback_failure_leaves_row:
  "fst (PeerHandler_CreatePeer lib0 env_readback_fails world0 (Some \<lparr>cpr_Name = ''laptop''\<rparr>)) =
     Failure 500 ''Failed to create peer'' (Some ErrStorage) \<and>
   \<not> fails env_readback_fails DeletePeerRow \<and>
   peers (db world0) = [] \<and>
   peers (db (snd (PeerHandler_CreatePeer lib0 env_readback_fails world0
                     (Some \<lparr>cpr_Name = ''laptop''\<rparr>)))) =
     [\<lparr>p_ID = 1, p_Name = ''laptop'', p_PublicKey = key3, p_PrivateKey = ''private-key'',
       p_AssignedIP = ''10.8.0.2'', p_Enabled = True, p_CreatedAt = 1000, p_UpdatedAt = 1000\<rparr>] \<and>
   live (wg (snd (PeerHandler_CreatePeer lib0 env_readback_fails world0
                     (Some \<lparr>cpr_Name = ''laptop''\<rparr>)))) = [] \<and>
   calls (wg (snd (PeerHandler_CreatePeer lib0 env_readback_fails world0
                     (Some \<lparr>cpr_Name = ''laptop''\<rparr>)))) = []"
  by (simp add: CreatePeer_eval example_defs)

theorem CreatePeer_atomic_with_rollback_witness:
  "peer_ids_issued (db world2) \<and>
   fst (PeerHandler_CreatePeer lib0 env0 world2 (Some \<lparr>cpr_Name = ''tablet''\<rparr>)) =
     Reply 201 \<lparr>pr_ID = 3, pr_Name = ''tablet'', pr_PublicKey = key3, pr_AssignedIP = ''10.8.0.4'',
                pr_Enabled = True, pr_CreatedAt = 1000\<rparr> \<and>
   (key3, ''10.8.0.4/32'') \<in>
     set (live (wg (snd (PeerHandler_CreatePeer lib0 env0 world2 (Some \<lparr>cpr_Name = ''tablet''\<rparr>))))) \<and>
   ''10.8.0.4'' \<in> usedIPs (db (snd (PeerHandler_CreatePeer lib0 env0 world2
                                      (Some \<lparr>cpr_Name = ''tablet''\<rparr>)))) \<and>
   fst (PeerHandler_CreatePeer lib0 env_wg_down world2 (Some \<lparr>cpr_Name = ''tablet''\<rparr>)) =
     Failure 500 ''Failed to add peer to WireGuard'' (Some ErrAddPeer) \<and>
   \<not> fails env_wg_down DeletePeerRow \<and> \<not> fails env_wg_down LastInsertId \<and>
   \<not> fails env_wg_down SelectPeerByID \<and>
   peers (db (snd (PeerHandler_CreatePeer lib0 env_wg_down world2 (Some \<lparr>cpr_Name = ''tablet''\<rparr>)))) =
     peers (db world2) \<and>
   peer_seq (db (snd (PeerHandler_CreatePeer lib0 env_wg_down world2
                        (Some \<lparr>cpr_Name = ''tablet''\<rparr>)))) = peer_seq (db world2) + 1"
proof -
  let ?ok = "PeerHandler_CreatePeer lib0 env0 world2 (Some \<lparr>cpr_Name = ''tablet''\<rparr>)"
  let ?down = "PeerHandler_CreatePeer lib0 env_wg_down world2 (Some \<lparr>cpr_Name = ''tablet''\<rparr>)"
  have wf: "peer_ids_issued (db world2)"
    by (simp add: peer_ids_issued_def example_defs)
  have ok: "fst ?ok = Reply 201 \<lparr>pr_ID = 3, pr_Name = ''tablet'', pr_PublicKey = key3,
      pr_AssignedIP = ''10.8.0.4'', pr_Enabled = True, pr_CreatedAt = 1000\<rparr>"
    "(key3, ''10.8.0.4/32'') \<in> set (live (wg (snd ?ok)))"
    "''10.8.0.4'' \<in> usedIPs (db (snd ?ok))"
    by (simp_all add: CreatePeer_eval ValidateIP_4 example_defs)
  have down: "fst ?down = Failure 500 ''Failed to add peer to WireGuard'' (Some ErrAddPeer)"
    "\<not> fails env_wg_down DeletePeerRow" "\<not> fails env_wg_down LastInsertId"
    "\<not> fails env_wg_down SelectPeerByID"
    by (simp_all add: CreatePeer_eval ValidateIP_4 example_defs)
  have "?down = (fst ?down, snd ?down)" by simp
  from CreatePeer_atomic_with_rollback[OF this] down
  have "peers (db (snd ?down)) = peers (db world2)"
    "peer_seq (db (snd ?down)) = peer_seq (db world2) + 1"
    by auto
  with wf ok down show ?thesis by simp
qed

lemma DB_CreatePeer_keeps_ids_issued:
  assumes "peer_ids_issued d" "DB_CreatePeer f t d peer = (res, d1)"
  shows "peer_ids_issued d1"
  using assms
  by (fastforce simp: DB_CreatePeer_def peer_ids_issued_def Let_def list_all_iff split: if_splits)

lemma DB_DeletePeer_keeps_ids_issued:
  assumes "peer_ids_issued d" "DB_DeletePeer f d ip = (res, d1)"
  shows "peer_ids_issued d1"
  using assms
  by (auto simp: DB_DeletePeer_def peer_ids_issued_def Let_def list_all_iff split: if_splits)

text \<open>
  The exception the claim names: the live add fails and the storage engine fails the
  compensating delete; the new row stays, enabled, with its key not in the live interface.
\<close>

lemma CreatePeer_failed_compensating_delete:
  "fst (PeerHandler_CreatePeer lib0 env_delete_fails world2 (Some \<lparr>cpr_Name = ''tablet''\<rparr>)) =
     Failure 500 ''Failed to add peer to WireGuard'' (Some ErrAddPeer) \<and>
   map p_AssignedIP (peers (db (snd (PeerHandler_CreatePeer lib0 env_delete_fails world2
                                       (Some \<lparr>cpr_Name = ''tablet''\<rparr>))))) =
     [''10.8.0.2'', ''10.8.0.3'', ''10.8.0.4''] \<and>
   live (wg (snd (PeerHandler_CreatePeer lib0 env_delete_fails world2
                    (Some \<lparr>cpr_Name = ''tablet''\<rparr>)))) = [(key1, ''10.8.0.2/32'')]"
  by (simp add: CreatePeer_eval ValidateIP_4 example_defs)

section \<open>Access control: the gate and the API credential\<close>
lemma b64_length: "length (RawURLEncoding_EncodeToString bs) = (length bs * 4 + 2) div 3"
  by (induction bs rule: RawURLEncoding_EncodeToString.induct) (simp_all add: Let_def)

lemma digest_bytes_length: "length (digest_bytes h) = 32"
  by (simp add: digest_bytes_def)

lemma GenerateAPIToken_deterministic_43:
  "length (GenerateAPIToken L password secret) = 43 \<and>
   GenerateAPIToken L password secret = GenerateAPIToken L password secret'"
  by (simp add: GenerateAPIToken_def Let_def b64_length digest_bytes_length)

lemma GetUserByAPIToken_Inr:
  "GetUserByAPIToken fault d token = Inr u \<Longrightarrow>
     u \<in> set (users d) \<and> u_APIToken u = token \<and> u_APIToken u \<noteq> [] \<and> token \<noteq> []"
  by (auto simp: GetUserByAPIToken_def find_Some_iff split: if_splits option.splits)

lemma AuthMiddleware_bearer:
  assumes "SplitN2 h = [scheme, tok]" "ToLower scheme = ''bearer''" "tok \<noteq> []"
  shows "AuthMiddleware L env w h =
     (case ValidateAccessToken L (config w) (now env) tok of
        Inr claims \<Rightarrow> (Next (c_UserID claims) (c_Username claims), [CallValidateAccessToken tok])
      | Inl err \<Rightarrow>
          if length tok = 43
          then (case GetUserByAPIToken (fails env SelectUserByAPIToken) (db w) tok of
                  Inr user \<Rightarrow> (Next (u_ID user) (u_Username user),
                                [CallValidateAccessToken tok, CallGetUserByAPIToken tok])
                | Inl apiErr \<Rightarrow> (Abort 401 ''Invalid or expired token'',
                                  [CallValidateAccessToken tok, CallGetUserByAPIToken tok]))
          else (Abort 401 ''Invalid or expired token'', [CallValidateAccessToken tok]))"
proof -
  from assms(1) have "h \<noteq> []" by (auto simp: SplitN2_def split: if_splits)
  with assms show ?thesis by (simp add: AuthMiddleware_def)
qed

text \<open>
  Claim C5. For every request whose Authorization header splits into a scheme that is
  "bearer" in any letter case and a non-empty bearer value:
  \<^item> the first call of the gate is the validation of the value as a signed access token;
  \<^item> the API-credential lookup is called if and only if that validation failed and the
    value is exactly 43 bytes long, and it is called after the validation;
  \<^item> when the validation fails and either the value has another length or the lookup
    fails, the response is 401 "Invalid or expired token", whichever error (expired,
    invalid, no row, storage) the two paths gave.
\<close>

theorem AuthMiddleware_validation_order:
  assumes h: "SplitN2 h = [scheme, tok]" "ToLower scheme = ''bearer''" "tok \<noteq> []"
    and r: "AuthMiddleware L env w h = (out, steps)"
  shows "(\<exists>rest. steps = CallValidateAccessToken tok # rest) \<and>
         (CallGetUserByAPIToken tok \<in> set steps \<longleftrightarrow>
            (\<exists>e. ValidateAccessToken L (config w) (now env) tok = Inl e) \<and> length tok = 43) \<and>
         (steps = [CallValidateAccessToken tok] \<or>
          steps = [CallValidateAccessToken tok, CallGetUserByAPIToken tok]) \<and>
         (\<forall>e. ValidateAccessToken L (config w) (now env) tok = Inl e \<and>
              (length tok \<noteq> 43 \<or>
               (\<exists>e'. GetUserByAPIToken (fails env SelectUserByAPIToken) (db w) tok = Inl e')) \<longrightarrow>
            out = Abort 401 ''Invalid or expired token'')"
  using r unfolding AuthMiddleware_bearer[OF h]
  by (auto split: sum.splits if_splits)

lemma Login_reply:
  assumes "AuthHandler_Login L env w (Some req) = (Reply 200 (r, c), w')"
  shows "APIToken r = GenerateAPIToken L (lr_Password req) (AccessSecret (config w))"
  using assms
  by (auto simp add: AuthHandler_Login_def Let_def
      split: sum.splits if_splits prod.splits option.splits)

text \<open>
  Claim C7. The API credential is a function of the password alone: for every password
  (and every HMAC function) the derived credential is exactly 43 characters long and does
  not depend on the second argument (the JWT secret of the deployment); and any two
  successful logins with the same password, in whatever states, deployments and
  environments, return the same 43-character credential.
\<close>

theorem API_credential_deterministic:
  "length (GenerateAPIToken L password secret) = 43 \<and>
   GenerateAPIToken L password secret = GenerateAPIToken L password secret' \<and>
   (\<forall>ra ca wa' rb cb wb'.
      AuthHandler_Login L enva wa (Some reqa) = (Reply 200 (ra, ca), wa') \<and>
      AuthHandler_Login L envb wb (Some reqb) = (Reply 200 (rb, cb), wb') \<and>
      lr_Password reqa = lr_Password reqb \<longrightarrow>
      APIToken ra = APIToken rb \<and> length (APIToken ra) = 43 \<and>
      APIToken ra = GenerateAPIToken L (lr_Password reqa) [])"
proof (intro conjI allI impI)
  show "length (GenerateAPIToken L password secret) = 43"
    "GenerateAPIToken L password secret = GenerateAPIToken L password secret'"
    using GenerateAPIToken_deterministic_43 by blast+
next
  fix ra ca wa' rb cb wb'
  assume a: "AuthHandler_Login L enva wa (Some reqa) = (Reply 200 (ra, ca), wa') \<and>
      AuthHandler_Login L envb wb (Some reqb) = (Reply 200 (rb, cb), wb') \<and>
      lr_Password reqa = lr_Password reqb"
  then have 1: "APIToken ra = GenerateAPIToken L (lr_Password reqa) (AccessSecret (config wa))"
    and 2: "APIToken rb = GenerateAPIToken L (lr_Password reqa) (AccessSecret (config wb))"
    using Login_reply[of L enva wa reqa ra ca wa'] Login_reply[of L envb wb reqb rb cb wb'] by simp_all
  have g: "\<And>s. GenerateAPIToken L (lr_Password reqa) s = GenerateAPIToken L (lr_Password reqa) []"
    using GenerateAPIToken_deterministic_43 by blast
  from 1 2 g show "APIToken ra = APIToken rb" "APIToken ra = GenerateAPIToken L (lr_Password reqa) []"
    by metis+
  from 1 show "length (APIToken ra) = 43" using GenerateAPIToken_deterministic_43 by simp
qed

lemma AuthMiddleware_api_path:
  assumes "AuthMiddleware L env w h = (Next uid name, steps)" "CallGetUserByAPIToken t \<in> set steps"
  shows "GetUserByAPIToken (fails env SelectUserByAPIToken) (db w) t \<noteq> Inl ErrNoRows \<and>
         (\<exists>u. GetUserByAPIToken (fails env SelectUserByAPIToken) (db w) t = Inr u \<and>
              u_ID u = uid \<and> u_Username u = name) \<and> length t = 43"
  using assms
  by (auto simp: AuthMiddleware_def Let_def split: if_splits sum.splits)

text \<open>
  Claim C10. The lookup by API token fails for the empty bearer value; it fails
  whenever every row whose credential equals the value has the empty credential; a row it
  returns has the presented value as its credential, and that credential is not empty,
  so a user whose stored credential is empty (no login has derived and stored one) is
  never returned for any bearer value; and whenever the gate admits a request through
  the API-credential path, the identity it sets is that of a user row with a non-empty
  credential equal to the bearer value.
\<close>

theorem API_lookup_never_matches_empty_credential:
  "GetUserByAPIToken fault d [] = Inl ErrNoRows \<and>
   (list_all (\<lambda>u. u_APIToken u = tok \<longrightarrow> u_APIToken u = []) (users d) \<longrightarrow>
      (\<exists>e. GetUserByAPIToken fault d tok = Inl e)) \<and>
   (\<forall>u. GetUserByAPIToken fault d tok = Inr u \<longrightarrow>
      u \<in> set (users d) \<and> u_APIToken u = tok \<and> u_APIToken u \<noteq> []) \<and>
   (\<forall>u. u_APIToken u = [] \<longrightarrow> GetUserByAPIToken fault d tok \<noteq> Inr u) \<and>
   (\<forall>uid name steps t.
      AuthMiddleware L env w h = (Next uid name, steps) \<and> CallGetUserByAPIToken t \<in> set steps \<longrightarrow>
      (\<exists>u. u \<in> set (users (db w)) \<and> u_ID u = uid \<and> u_Username u = name \<and>
           u_APIToken u = t \<and> u_APIToken u \<noteq> []))"
proof -
  have c1: "GetUserByAPIToken fault d [] = Inl ErrNoRows" by (simp add: GetUserByAPIToken_def)
  have c2: "list_all (\<lambda>u. u_APIToken u = tok \<longrightarrow> u_APIToken u = []) (users d) \<longrightarrow>
      (\<exists>e. GetUserByAPIToken fault d tok = Inl e)"
  proof
    assume a: "list_all (\<lambda>u. u_APIToken u = tok \<longrightarrow> u_APIToken u = []) (users d)"
    show "\<exists>e. GetUserByAPIToken fault d tok = Inl e"
    proof (cases "GetUserByAPIToken fault d tok")
      case (Inr u)
      from GetUserByAPIToken_Inr[OF Inr] a show ?thesis by (auto simp: list_all_iff)
    qed simp
  qed
  have c3: "\<forall>u. GetUserByAPIToken fault d tok = Inr u \<longrightarrow>
      u \<in> set (users d) \<and> u_APIToken u = tok \<and> u_APIToken u \<noteq> []"
    using GetUserByAPIToken_Inr by blast
  have c4: "\<forall>u. u_APIToken u = [] \<longrightarrow> GetUserByAPIToken fault d tok \<noteq> Inr u"
    using GetUserByAPIToken_Inr by blast
  have c5: "\<forall>uid name steps t.
      AuthMiddleware L env w h = (Next uid name, steps) \<and> CallGetUserByAPIToken t \<in> set steps \<longrightarrow>
      (\<exists>u. u \<in> set (users (db w)) \<and> u_ID u = uid \<and> u_Username u = name \<and>
           u_APIToken u = t \<and> u_APIToken u \<noteq> [])"
  proof (intro allI impI)
    fix uid name steps t
    assume "AuthMiddleware L env w h = (Next uid name, steps) \<and> CallGetUserByAPIToken t \<in> set steps"
    then obtain u where u: "GetUserByAPIToken (fails env SelectUserByAPIToken) (db w) t = Inr u"
      "u_ID u = uid" "u_Username u = name"
      using AuthMiddleware_api_path[of L env w h uid name steps t] by blast
    from GetUserByAPIToken_Inr[OF u(1)] u(2,3)
    show "\<exists>u. u \<in> set (users (db w)) \<and> u_ID u = uid \<and> u_Username u = name \<and>
             u_APIToken u = t \<and> u_APIToken u \<noteq> []" by blast
  qed
  from c1 c2 c3 c4 c5 show ?thesis by (intro conjI)
qed

lemma GenerateAPIToken_nonempty: "GenerateAPIToken L password secret \<noteq> []"
  using GenerateAPIToken_deterministic_43[of L password secret] by auto

lemma SplitN2_examples:
  "SplitN2 ''Bearer abcdefghijklmnopqrstuvwxyzABCDEFGHIJKLMNOPQ'' =
     [''Bearer'', ''abcdefghijklmnopqrstuvwxyzABCDEFGHIJKLMNOPQ'']"
  "SplitN2 ''BEARER old.jwt.token'' = [''BEARER'', ''old.jwt.token'']"
  "SplitN2 ''bearer good.jwt.token'' = [''bearer'', ''good.jwt.token'']"
  "SplitN2 ''Basic dXNlcjpwdw=='' = [''Basic'', ''dXNlcjpwdw=='']"
  "SplitN2 ''Bearer'' = [''Bearer'']"
  by (simp_all add: SplitN2_def)

lemma ToLower_examples:
  "ToLower ''Bearer'' = ''bearer''" "ToLower ''BEARER'' = ''bearer''" "ToLower ''bearer'' = ''bearer''"
  "ToLower ''Basic'' = ''basic''"
  by (simp_all add: ToLower_def lower_char_def)

lemmas AuthMiddleware_eval = AuthMiddleware_def SplitN2_examples ToLower_examples
  ValidateAccessToken_def GetUserByAPIToken_def Let_def

theorem AuthMiddleware_validation_order_witness:
  "SplitN2 ''Bearer abcdefghijklmnopqrstuvwxyzABCDEFGHIJKLMNOPQ'' = [''Bearer'', api43] \<and>
   ToLower ''Bearer'' = ''bearer'' \<and> api43 \<noteq> [] \<and> length api43 = 43 \<and>
   ValidateAccessToken lib0 (config world_api) (now env0) api43 = Inl ErrInvalidToken \<and>
   AuthMiddleware lib0 env0 world_api ''Bearer abcdefghijklmnopqrstuvwxyzABCDEFGHIJKLMNOPQ'' =
     (Next 1 ''admin'', [CallValidateAccessToken api43, CallGetUserByAPIToken api43]) \<and>
   AuthMiddleware lib0 env0 world_fresh ''Bearer abcdefghijklmnopqrstuvwxyzABCDEFGHIJKLMNOPQ'' =
     (Abort 401 ''Invalid or expired token'',
      [CallValidateAccessToken api43, CallGetUserByAPIToken api43]) \<and>
   AuthMiddleware lib0 env0 world_api ''BEARER old.jwt.token'' =
     (Abort 401 ''Invalid or expired token'', [CallValidateAccessToken ''old.jwt.token'']) \<and>
   AuthMiddleware lib0 env0 world_api ''bearer good.jwt.token'' =
     (Next 1 ''admin'', [CallValidateAccessToken ''good.jwt.token''])"
proof -
  have s: "SplitN2 ''Bearer abcdefghijklmnopqrstuvwxyzABCDEFGHIJKLMNOPQ'' = [''Bearer'', api43]"
    by (simp add: SplitN2_examples api43_def)
  have l: "ToLower ''Bearer'' = ''bearer''" by (rule ToLower_examples)
  have n: "api43 \<noteq> []" "length api43 = 43" by (simp_all add: api43_def)
  have v: "ValidateAccessToken lib0 (config world_api) (now env0) api43 = Inl ErrInvalidToken"
    by (simp add: ValidateAccessToken_def example_defs)
  have a: "AuthMiddleware lib0 env0 world_api ''Bearer abcdefghijklmnopqrstuvwxyzABCDEFGHIJKLMNOPQ'' =
     (Next 1 ''admin'', [CallValidateAccessToken api43, CallGetUserByAPIToken api43])"
    by (simp add: AuthMiddleware_eval example_defs)
  have b: "AuthMiddleware lib0 env0 world_fresh ''Bearer abcdefghijklmnopqrstuvwxyzABCDEFGHIJKLMNOPQ'' =
     (Abort 401 ''Invalid or expired token'',
      [CallValidateAccessToken api43, CallGetUserByAPIToken api43])"
    by (simp add: AuthMiddleware_eval example_defs)
  have c: "AuthMiddleware lib0 env0 world_api ''BEARER old.jwt.token'' =
     (Abort 401 ''Invalid or expired token'', [CallValidateAccessToken ''old.jwt.token''])"
    by (simp add: AuthMiddleware_eval example_defs)
  have d: "AuthMiddleware lib0 env0 world_api ''bearer good.jwt.token'' =
     (Next 1 ''admin'', [CallValidateAccessToken ''good.jwt.token''])"
    by (simp add: AuthMiddleware_eval example_defs)
  from AuthMiddleware_validation_order[OF s l n(1) a] s l n v a b c d
  show ?thesis by simp
qed

theorem API_lookup_never_matches_empty_credential_witness:
  "GetUserByAPIToken False (db world_fresh) [] = Inl ErrNoRows \<and>
   list_all (\<lambda>u. u_APIToken u = api43 \<longrightarrow> u_APIToken u = []) (users (db world_fresh)) \<and>
   GetUserByAPIToken False (db world_fresh) api43 = Inl ErrNoRows \<and>
   GetUserByAPIToken False (db world_api) api43 = Inr (admin_user api43) \<and>
   u_APIToken (admin_user api43) \<noteq> [] \<and>
   AuthMiddleware lib0 env0 world_api ''Bearer abcdefghijklmnopqrstuvwxyzABCDEFGHIJKLMNOPQ'' =
     (Next 1 ''admin'', [CallValidateAccessToken api43, CallGetUserByAPIToken api43]) \<and>
   CallGetUserByAPIToken api43 \<in> set [CallValidateAccessToken api43, CallGetUserByAPIToken api43] \<and>
   fst (AuthMiddleware lib0 env0 world_fresh ''Bearer abcdefghijklmnopqrstuvwxyzABCDEFGHIJKLMNOPQ'') =
     Abort 401 ''Invalid or expired token''"
proof -
  have a: "AuthMiddleware lib0 env0 world_api ''Bearer abcdefghijklmnopqrstuvwxyzABCDEFGHIJKLMNOPQ'' =
     (Next 1 ''admin'', [CallValidateAccessToken api43, CallGetUserByAPIToken api43])"
    by (simp add: AuthMiddleware_eval example_defs)
  have b: "fst (AuthMiddleware lib0 env0 world_fresh ''Bearer abcdefghijklmnopqrstuvwxyzABCDEFGHIJKLMNOPQ'') =
     Abort 401 ''Invalid or expired token''"
    by (simp add: AuthMiddleware_eval example_defs)
  have c: "GetUserByAPIToken False (db world_fresh) api43 = Inl ErrNoRows"
    "GetUserByAPIToken False (db world_api) api43 = Inr (admin_user api43)"
    "list_all (\<lambda>u. u_APIToken u = api43 \<longrightarrow> u_APIToken u = []) (users (db world_fresh))"
    "u_APIToken (admin_user api43) \<noteq> []"
    by (simp_all add: GetUserByAPIToken_def example_defs)
  from API_lookup_never_matches_empty_credential[of False "db world_fresh" api43 lib0 env0 world_api
      "''Bearer abcdefghijklmnopqrstuvwxyzABCDEFGHIJKLMNOPQ''"] a b c
  show ?thesis by simp
qed

lemmas Login_eval = AuthHandler_Login_def GetUserByUsername_def VerifyPassword_def
  UpdateUserAPIToken_def GenerateAccessToken_def GenerateRefreshToken_def SaveRefreshToken_def
  GetRefreshTokenExpiry_def GenerateAPIToken_nonempty GenerateAPIToken_nonempty[symmetric] Let_def

theorem API_credential_deterministic_witness:
  "length (GenerateAPIToken lib0 ''changeme123'' ''secret'') = 43 \<and>
   fst (AuthHandler_Login lib0 env0 world_fresh (Some login_admin)) =
     Reply 200 (\<lparr>AccessToken = ''signed.access.token'', ExpiresIn = 900,
                  APIToken = GenerateAPIToken lib0 ''changeme123'' ''secret''\<rparr>,
                ''fresh-refresh-token'') \<and>
   fst (AuthHandler_Login lib0 env1 (snd (AuthHandler_Login lib0 env0 world_fresh (Some login_admin)))
          (Some login_admin)) =
     Reply 200 (\<lparr>AccessToken = ''signed.access.token'', ExpiresIn = 900,
                  APIToken = GenerateAPIToken lib0 ''changeme123'' ''secret''\<rparr>,
                ''second-refresh-token'') \<and>
   map u_APIToken (users (db (snd (AuthHandler_Login lib0 env0 world_fresh (Some login_admin))))) =
     [GenerateAPIToken lib0 ''changeme123'' ''secret'']"
proof -
  let ?w1 = "snd (AuthHandler_Login lib0 env0 world_fresh (Some login_admin))"
  have w1: "AuthHandler_Login lib0 env0 world_fresh (Some login_admin) =
     (Reply 200 (\<lparr>AccessToken = ''signed.access.token'', ExpiresIn = 900,
                  APIToken = GenerateAPIToken lib0 ''changeme123'' ''secret''\<rparr>,
                ''fresh-refresh-token''),
      world0\<lparr>db := empty_db\<lparr>
        users := [(admin_user (GenerateAPIToken lib0 ''changeme123'' ''secret''))\<lparr>u_UpdatedAt := 1000\<rparr>],
        user_seq := 1,
        refresh_tokens := [\<lparr>rt_ID = 1, rt_UserID = 1, rt_Token = ''fresh-refresh-token'',
                            rt_ExpiresAt = 1000 + 7 * 24 * 3600000000000, rt_CreatedAt = 1000\<rparr>],
        token_seq := 1\<rparr>\<rparr>)"
    by (simp add: Login_eval world_fresh_def world0_def empty_db_def admin_user_def env0_def
        login_admin_def config0_def lib0_def[THEN arg_cong, of bcrypt_matches] iface0_def)
  have w2: "fst (AuthHandler_Login lib0 env1 ?w1 (Some login_admin)) =
     Reply 200 (\<lparr>AccessToken = ''signed.access.token'', ExpiresIn = 900,
                  APIToken = GenerateAPIToken lib0 ''changeme123'' ''secret''\<rparr>,
                ''second-refresh-token'')"
    unfolding w1
    by (simp add: Login_eval world_fresh_def world0_def empty_db_def admin_user_def env0_def
        env1_def login_admin_def config0_def lib0_def[THEN arg_cong, of bcrypt_matches] iface0_def)
  have u: "map u_APIToken (users (db ?w1)) = [GenerateAPIToken lib0 ''changeme123'' ''secret'']"
    unfolding w1 by (simp add: admin_user_def)
  have p: "lr_Password login_admin = ''changeme123''" by (simp add: login_admin_def)
  have len: "length (GenerateAPIToken lib0 ''changeme123'' ''secret'') = 43"
    using API_credential_deterministic[of lib0 "''changeme123''" "''secret''" "''other''"
      env0 world_fresh login_admin env1 ?w1 login_admin] by blast
  have f: "fst (AuthHandler_Login lib0 env0 world_fresh (Some login_admin)) =
     Reply 200 (\<lparr>AccessToken = ''signed.access.token'', ExpiresIn = 900,
                  APIToken = GenerateAPIToken lib0 ''changeme123'' ''secret''\<rparr>,
                ''fresh-refresh-token'')"
    unfolding w1 by simp
  from len f w2 u show ?thesis by (intro conjI)
qed

section \<open>Refresh rotation\<close>
lemma GetRefreshToken_absent:
  "tok \<notin> rt_Token ` set (refresh_tokens d) \<Longrightarrow> \<exists>e. GetRefreshToken fault d tok = Inl e"
  by (auto simp: GetRefreshToken_def find_Some_iff split: option.splits)

lemma Refresh_unknown_token:
  assumes "tok \<notin> rt_Token ` set (refresh_tokens (db w))"
  shows "AuthHandler_Refresh L env w (Some tok) = (Failure 401 ''Invalid refresh token'' None, w)"
proof -
  from GetRefreshToken_absent[OF assms] obtain e where
    "GetRefreshToken (fails env SelectRefreshToken) (db w) tok = Inl e" by blast
  then show ?thesis by (simp add: AuthHandler_Refresh_def)
qed

lemma DeleteRefreshToken_rows:
  "\<not> fault \<Longrightarrow> refresh_tokens (snd (DeleteRefreshToken fault d tok)) =
     filter (\<lambda>r. rt_Token r \<noteq> tok) (refresh_tokens d)"
  by (simp add: DeleteRefreshToken_def)

lemma SaveRefreshToken_rows:
  "SaveRefreshToken fault t d uid tok ex = (None, d2) \<Longrightarrow>
     \<exists>row. rt_Token row = tok \<and> rt_UserID row = uid \<and> rt_ExpiresAt row = ex \<and>
           refresh_tokens d2 = refresh_tokens d @ [row]"
  by (auto simp: SaveRefreshToken_def split: if_splits)

lemma Refresh_expired:
  assumes "GetRefreshToken (fails env SelectRefreshToken) (db w) tok = Inr td"
    "now env > rt_ExpiresAt td"
  shows "AuthHandler_Refresh L env w (Some tok) =
     (Failure 401 ''Refresh token expired'' None,
      w\<lparr>db := snd (DeleteRefreshToken (fails env DeleteRefreshTokenRow) (db w) tok)\<rparr>)"
  using assms by (simp add: AuthHandler_Refresh_def)

lemma Refresh_success:
  assumes "AuthHandler_Refresh L env w (Some tok) = (Reply 200 (b, c), w1)"
  shows "c = fresh_token env \<and>
         (\<exists>row. rt_Token row = fresh_token env \<and>
            refresh_tokens (db w1) =
              refresh_tokens (snd (DeleteRefreshToken (fails env DeleteRefreshTokenRow) (db w) tok)) @ [row])"
  using assms
  by (auto simp: AuthHandler_Refresh_def GenerateAccessToken_def GenerateRefreshToken_def Let_def
      split: sum.splits if_splits prod.splits option.splits dest!: SaveRefreshToken_rows)

text \<open>
  Claim C6, as amended. A successful refresh returns a newly generated refresh token and
  stores it; when the storage engine does not fail the delete of the old row and the new
  token differs from the presented one, the presented token is no longer stored, so
  every later refresh with it is rejected with 401 "Invalid refresh token". A refresh
  with a stored token whose expiry has passed is rejected with 401 "Refresh token
  expired", and, unless the storage engine fails the delete, the token is removed, so a
  later refresh with it is rejected as well. The handler drops the error of both deletes:
  the claim as stated fails when the delete fails, see
  \<open>Refresh_reuse_after_failed_delete\<close>.
\<close>

theorem Refresh_rotation_invalidates:
  assumes r: "AuthHandler_Refresh L env w (Some tok) = (resp, w1)"
  shows "(\<forall>b c. resp = Reply 200 (b, c) \<and> \<not> fails env DeleteRefreshTokenRow \<and> fresh_token env \<noteq> tok \<longrightarrow>
            c = fresh_token env \<and> c \<in> rt_Token ` set (refresh_tokens (db w1)) \<and>
            tok \<notin> rt_Token ` set (refresh_tokens (db w1)) \<and>
            (\<forall>env'. AuthHandler_Refresh L env' w1 (Some tok) =
                     (Failure 401 ''Invalid refresh token'' None, w1))) \<and>
         (\<forall>td. GetRefreshToken (fails env SelectRefreshToken) (db w) tok = Inr td \<and>
               now env > rt_ExpiresAt td \<longrightarrow>
            resp = Failure 401 ''Refresh token expired'' None \<and>
            (\<not> fails env DeleteRefreshTokenRow \<longrightarrow>
               tok \<notin> rt_Token ` set (refresh_tokens (db w1)) \<and>
               (\<forall>env'. AuthHandler_Refresh L env' w1 (Some tok) =
                        (Failure 401 ''Invalid refresh token'' None, w1))))"
proof -
  have rot: "\<forall>b c. resp = Reply 200 (b, c) \<and> \<not> fails env DeleteRefreshTokenRow \<and> fresh_token env \<noteq> tok \<longrightarrow>
            c = fresh_token env \<and> c \<in> rt_Token ` set (refresh_tokens (db w1)) \<and>
            tok \<notin> rt_Token ` set (refresh_tokens (db w1)) \<and>
            (\<forall>env'. AuthHandler_Refresh L env' w1 (Some tok) =
                     (Failure 401 ''Invalid refresh token'' None, w1))"
  proof (intro allI impI)
    fix b c
    assume a: "resp = Reply 200 (b, c) \<and> \<not> fails env DeleteRefreshTokenRow \<and> fresh_token env \<noteq> tok"
    with r have ok: "AuthHandler_Refresh L env w (Some tok) = (Reply 200 (b, c), w1)" by simp
    from Refresh_success[OF ok] obtain row where row: "c = fresh_token env"
      "rt_Token row = fresh_token env"
      "refresh_tokens (db w1) =
         refresh_tokens (snd (DeleteRefreshToken (fails env DeleteRefreshTokenRow) (db w) tok)) @ [row]"
      by blast
    from a have "refresh_tokens (snd (DeleteRefreshToken (fails env DeleteRefreshTokenRow) (db w) tok)) =
        filter (\<lambda>r. rt_Token r \<noteq> tok) (refresh_tokens (db w))"
      by (intro DeleteRefreshToken_rows) simp
    with row a have gone: "tok \<notin> rt_Token ` set (refresh_tokens (db w1))"
      and new: "c \<in> rt_Token ` set (refresh_tokens (db w1))" by auto
    from gone have "\<forall>env'. AuthHandler_Refresh L env' w1 (Some tok) =
        (Failure 401 ''Invalid refresh token'' None, w1)"
      using Refresh_unknown_token by blast
    with row(1) gone new
    show "c = fresh_token env \<and> c \<in> rt_Token ` set (refresh_tokens (db w1)) \<and>
            tok \<notin> rt_Token ` set (refresh_tokens (db w1)) \<and>
            (\<forall>env'. AuthHandler_Refresh L env' w1 (Some tok) =
                     (Failure 401 ''Invalid refresh token'' None, w1))" by simp
  qed
  have ex: "\<forall>td. GetRefreshToken (fails env SelectRefreshToken) (db w) tok = Inr td \<and>
               now env > rt_ExpiresAt td \<longrightarrow>
            resp = Failure 401 ''Refresh token expired'' None \<and>
            (\<not> fails env DeleteRefreshTokenRow \<longrightarrow>
               tok \<notin> rt_Token ` set (refresh_tokens (db w1)) \<and>
               (\<forall>env'. AuthHandler_Refresh L env' w1 (Some tok) =
                        (Failure 401 ''Invalid refresh token'' None, w1)))"
  proof (intro allI impI)
    fix td
    assume a: "GetRefreshToken (fails env SelectRefreshToken) (db w) tok = Inr td \<and>
               now env > rt_ExpiresAt td"
    from a r Refresh_expired[of env w tok td L]
    have resp: "resp = Failure 401 ''Refresh token expired'' None"
      and w1: "w1 = w\<lparr>db := snd (DeleteRefreshToken (fails env DeleteRefreshTokenRow) (db w) tok)\<rparr>"
      by simp_all
    have "\<not> fails env DeleteRefreshTokenRow \<longrightarrow>
        tok \<notin> rt_Token ` set (refresh_tokens (db w1)) \<and>
        (\<forall>env'. AuthHandler_Refresh L env' w1 (Some tok) =
                 (Failure 401 ''Invalid refresh token'' None, w1))"
    proof
      assume nf: "\<not> fails env DeleteRefreshTokenRow"
      have "tok \<notin> rt_Token ` set (refresh_tokens (db w1))"
        unfolding w1 using DeleteRefreshToken_rows[OF nf, of "db w" tok] by auto
      then show "tok \<notin> rt_Token ` set (refresh_tokens (db w1)) \<and>
        (\<forall>env'. AuthHandler_Refresh L env' w1 (Some tok) =
                 (Failure 401 ''Invalid refresh token'' None, w1))"
        using Refresh_unknown_token by blast
    qed
    with resp show "resp = Failure 401 ''Refresh token expired'' None \<and>
            (\<not> fails env DeleteRefreshTokenRow \<longrightarrow>
               tok \<notin> rt_Token ` set (refresh_tokens (db w1)) \<and>
               (\<forall>env'. AuthHandler_Refresh L env' w1 (Some tok) =
                        (Failure 401 ''Invalid refresh token'' None, w1)))" by simp
  qed
  from rot ex show ?thesis by (intro conjI)
qed

lemmas Refresh_eval = AuthHandler_Refresh_def GetRefreshToken_def GetUserByID_def
  GenerateAccessToken_def GenerateRefreshToken_def DeleteRefreshToken_def SaveRefreshToken_def
  GetRefreshTokenExpiry_def Let_def

lemmas Refresh_example_defs = world_rt_def world0_def empty_db_def admin_user_def old_token_row_def
  env0_def env1_def env_token_delete_fails_def env_late_def env_late_delete_fails_def config0_def
  iface0_def api43_def

text \<open>
  The claim as stated fails: when the storage engine fails the delete of the old row,
  the first refresh still succeeds and the old row stays, so the second refresh with the
  same token succeeds too; and an expired token whose delete fails is rejected but not
  removed.
\<close>

theorem Refresh_reuse_after_failed_delete:
  "fst (AuthHandler_Refresh lib0 env_token_delete_fails world_rt (Some ''old-refresh-token'')) =
     Reply 200 (\<lparr>AccessToken = ''signed.access.token'', ExpiresIn = 900, APIToken = api43\<rparr>,
                ''fresh-refresh-token'') \<and>
   map rt_Token (refresh_tokens (db (snd (AuthHandler_Refresh lib0 env_token_delete_fails world_rt
                                             (Some ''old-refresh-token''))))) =
     [''old-refresh-token'', ''fresh-refresh-token''] \<and>
   fst (AuthHandler_Refresh lib0 env1
          (snd (AuthHandler_Refresh lib0 env_token_delete_fails world_rt (Some ''old-refresh-token'')))
          (Some ''old-refresh-token'')) =
     Reply 200 (\<lparr>AccessToken = ''signed.access.token'', ExpiresIn = 900, APIToken = api43\<rparr>,
                ''second-refresh-token'') \<and>
   rt_ExpiresAt old_token_row < now env_late_delete_fails \<and>
   fst (AuthHandler_Refresh lib0 env_late_delete_fails world_rt (Some ''old-refresh-token'')) =
     Failure 401 ''Refresh token expired'' None \<and>
   map rt_Token (refresh_tokens (db (snd (AuthHandler_Refresh lib0 env_late_delete_fails world_rt
                                             (Some ''old-refresh-token''))))) =
     [''old-refresh-token'']"
  by (simp add: Refresh_eval Refresh_example_defs)

theorem Refresh_rotation_invalidates_witness:
  "fst (AuthHandler_Refresh lib0 env0 world_rt (Some ''old-refresh-token'')) =
     Reply 200 (\<lparr>AccessToken = ''signed.access.token'', ExpiresIn = 900, APIToken = api43\<rparr>,
                ''fresh-refresh-token'') \<and>
   \<not> fails env0 DeleteRefreshTokenRow \<and> fresh_token env0 \<noteq> ''old-refresh-token'' \<and>
   map rt_Token (refresh_tokens (db (snd (AuthHandler_Refresh lib0 env0 world_rt
                                             (Some ''old-refresh-token''))))) =
     [''fresh-refresh-token''] \<and>
   fst (AuthHandler_Refresh lib0 env1
          (snd (AuthHandler_Refresh lib0 env0 world_rt (Some ''old-refresh-token'')))
          (Some ''old-refresh-token'')) = Failure 401 ''Invalid refresh token'' None \<and>
   GetRefreshToken (fails env_late SelectRefreshToken) (db world_rt) ''old-refresh-token'' =
     Inr old_token_row \<and>
   rt_ExpiresAt old_token_row < now env_late \<and> \<not> fails env_late DeleteRefreshTokenRow \<and>
   fst (AuthHandler_Refresh lib0 env_late world_rt (Some ''old-refresh-token'')) =
     Failure 401 ''Refresh token expired'' None \<and>
   refresh_tokens (db (snd (AuthHandler_Refresh lib0 env_late world_rt
                              (Some ''old-refresh-token'')))) = []"
proof -
  let ?first = "AuthHandler_Refresh lib0 env0 world_rt (Some ''old-refresh-token'')"
  have a: "fst ?first =
     Reply 200 (\<lparr>AccessToken = ''signed.access.token'', ExpiresIn = 900, APIToken = api43\<rparr>,
                ''fresh-refresh-token'')"
    "\<not> fails env0 DeleteRefreshTokenRow" "fresh_token env0 \<noteq> ''old-refresh-token''"
    "map rt_Token (refresh_tokens (db (snd ?first))) = [''fresh-refresh-token'']"
    by (simp_all add: Refresh_eval Refresh_example_defs)
  have e: "GetRefreshToken (fails env_late SelectRefreshToken) (db world_rt) ''old-refresh-token'' =
     Inr old_token_row"
    "rt_ExpiresAt old_token_row < now env_late" "\<not> fails env_late DeleteRefreshTokenRow"
    "fst (AuthHandler_Refresh lib0 env_late world_rt (Some ''old-refresh-token'')) =
     Failure 401 ''Refresh token expired'' None"
    "refresh_tokens (db (snd (AuthHandler_Refresh lib0 env_late world_rt
                              (Some ''old-refresh-token'')))) = []"
    by (simp_all add: Refresh_eval Refresh_example_defs)
  have "?first = (fst ?first, snd ?first)" by simp
  from Refresh_rotation_invalidates[OF this] a(1,2,3)
  have "AuthHandler_Refresh lib0 env1 (snd ?first) (Some ''old-refresh-token'') =
      (Failure 401 ''Invalid refresh token'' None, snd ?first)" by blast
  then have b: "fst (AuthHandler_Refresh lib0 env1 (snd ?first) (Some ''old-refresh-token'')) =
      Failure 401 ''Invalid refresh token'' None" by simp
  from a b e show ?thesis by (intro conjI)
qed

section \<open>Password change and refresh tokens\<close>
lemma update_dns_users:
  "update_dns env w req = Inr w1 \<Longrightarrow>
     users (db w1) = users (db w) \<and> refresh_tokens (db w1) = refresh_tokens (db w) \<and>
     AdminUsername (config w1) = AdminUsername (config w)"
  by (auto simp: update_dns_def SetSetting_def split: option.splits if_splits)

lemma update_allowed_ips_users:
  "update_allowed_ips env w req = Inr w1 \<Longrightarrow>
     users (db w1) = users (db w) \<and> refresh_tokens (db w1) = refresh_tokens (db w) \<and>
     AdminUsername (config w1) = AdminUsername (config w)"
  by (auto simp: update_allowed_ips_def SetSetting_def split: option.splits if_splits)

lemma update_logging_users:
  "update_logging env w req = Inr w1 \<Longrightarrow>
     users (db w1) = users (db w) \<and> refresh_tokens (db w1) = refresh_tokens (db w) \<and>
     AdminUsername (config w1) = AdminUsername (config w)"
  by (auto simp: update_logging_def SetSetting_def split: option.splits if_splits)

lemma update_settings_not_reply:
  "update_dns env w req \<noteq> Inl (Reply st m)" "update_allowed_ips env w req \<noteq> Inl (Reply st m)"
  "update_logging env w req \<noteq> Inl (Reply st m)"
  by (auto simp: update_dns_def update_allowed_ips_def update_logging_def
      split: option.splits prod.splits)

lemma update_admin_password_ok:
  assumes "update_admin_password L env w pw = (Reply 200 msg, w1)"
  shows "\<exists>u. find (\<lambda>u. u_Username u = AdminUsername (config w)) (users (db w)) = Some u \<and>
           refresh_tokens (db w1) =
             (if fails env DeleteUserTokens then refresh_tokens (db w)
              else filter (\<lambda>r. rt_UserID r \<noteq> u_ID u) (refresh_tokens (db w)))"
  using assms
  by (auto simp: update_admin_password_def GetUserByUsername_def UpdateUserPassword_def
      UpdateUserAPIToken_def DeleteUserRefreshTokens_def
      split: if_splits option.splits sum.splits prod.splits)

lemma UpdateSettings_password_ok:
  assumes r: "SettingsHandler_UpdateSettings L env w (Some req) = (Reply 200 msg, w1)"
    and pw: "usr_AdminPassword req = Some pw" "pw \<noteq> []"
  shows "\<exists>u. find (\<lambda>u. u_Username u = AdminUsername (config w)) (users (db w)) = Some u \<and>
           refresh_tokens (db w1) =
             (if fails env DeleteUserTokens then refresh_tokens (db w)
              else filter (\<lambda>r. rt_UserID r \<noteq> u_ID u) (refresh_tokens (db w)))"
proof -
  from r obtain wa where a: "update_dns env w req = Inr wa"
    using update_settings_not_reply(1)[of env w req 200 msg]
    by (cases "update_dns env w req") (auto simp: SettingsHandler_UpdateSettings_def)
  from r a obtain wb where b: "update_allowed_ips env wa req = Inr wb"
    using update_settings_not_reply(2)[of env wa req 200 msg]
    by (cases "update_allowed_ips env wa req") (auto simp: SettingsHandler_UpdateSettings_def)
  from r a b obtain wc where c: "update_logging env wb req = Inr wc"
    using update_settings_not_reply(3)[of env wb req 200 msg]
    by (cases "update_logging env wb req") (auto simp: SettingsHandler_UpdateSettings_def)
  from r a b c pw have p: "update_admin_password L env wc pw = (Reply 200 msg, w1)"
    by (simp add: SettingsHandler_UpdateSettings_def)
  from update_dns_users[OF a] update_allowed_ips_users[OF b] update_logging_users[OF c]
  have same: "users (db wc) = users (db w)" "refresh_tokens (db wc) = refresh_tokens (db w)"
    "AdminUsername (config wc) = AdminUsername (config w)" by simp_all
  from update_admin_password_ok[OF p] obtain u where
    "find (\<lambda>u. u_Username u = AdminUsername (config wc)) (users (db wc)) = Some u"
    "refresh_tokens (db w1) =
       (if fails env DeleteUserTokens then refresh_tokens (db wc)
        else filter (\<lambda>r. rt_UserID r \<noteq> u_ID u) (refresh_tokens (db wc)))" by blast
  with same show ?thesis by (intro exI[of _ u]) simp
qed

lemma distinct_token_owner:
  assumes "distinct (map rt_Token xs)" "x \<in> set xs" "y \<in> set xs" "rt_Token x = rt_Token y"
  shows "x = y"
  using assms by (meson distinct_map inj_onD)

lemma SaveRefreshToken_keeps_tokens_unique:
  "tokens_unique d \<Longrightarrow> SaveRefreshToken fault t d uid tok ex = (eo, d2) \<Longrightarrow> tokens_unique d2"
  by (auto simp: SaveRefreshToken_def tokens_unique_def list_ex_iff split: if_splits)

text \<open>
  Claim C9, as amended. A settings update that answers 200 and carries a non-empty admin
  password has found the admin user, and, unless the storage engine fails the delete
  of that user's refresh tokens (the handler drops that error), no refresh token of the
  user is left; with the tokens unique, as the UNIQUE column keeps them, every refresh
  token the user had before the change is rejected by every later refresh with 401
  "Invalid refresh token". The claim as stated fails when the delete fails, see
  \<open>password_change_keeps_tokens_after_failed_delete\<close>.
\<close>

theorem password_change_revokes_refresh_tokens:
  assumes r: "SettingsHandler_UpdateSettings L env w (Some req) = (Reply 200 msg, w1)"
    and pw: "usr_AdminPassword req = Some pw" "pw \<noteq> []"
  shows "\<exists>u. GetUserByUsername False (db w) (AdminUsername (config w)) = Inr u \<and>
           (\<not> fails env DeleteUserTokens \<longrightarrow>
              list_all (\<lambda>rt. rt_UserID rt \<noteq> u_ID u) (refresh_tokens (db w1)) \<and>
              (tokens_unique (db w) \<longrightarrow>
                 (\<forall>rt env'. rt \<in> set (refresh_tokens (db w)) \<and> rt_UserID rt = u_ID u \<longrightarrow>
                    rt_Token rt \<notin> rt_Token ` set (refresh_tokens (db w1)) \<and>
                    AuthHandler_Refresh L env' w1 (Some (rt_Token rt)) =
                      (Failure 401 ''Invalid refresh token'' None, w1))))"
proof -
  from UpdateSettings_password_ok[OF r pw] obtain u where
    u: "find (\<lambda>u. u_Username u = AdminUsername (config w)) (users (db w)) = Some u"
    and t: "refresh_tokens (db w1) =
             (if fails env DeleteUserTokens then refresh_tokens (db w)
              else filter (\<lambda>r. rt_UserID r \<noteq> u_ID u) (refresh_tokens (db w)))" by blast
  from u have g: "GetUserByUsername False (db w) (AdminUsername (config w)) = Inr u"
    by (simp add: GetUserByUsername_def)
  have "\<not> fails env DeleteUserTokens \<longrightarrow>
              list_all (\<lambda>rt. rt_UserID rt \<noteq> u_ID u) (refresh_tokens (db w1)) \<and>
              (tokens_unique (db w) \<longrightarrow>
                 (\<forall>rt env'. rt \<in> set (refresh_tokens (db w)) \<and> rt_UserID rt = u_ID u \<longrightarrow>
                    rt_Token rt \<notin> rt_Token ` set (refresh_tokens (db w1)) \<and>
                    AuthHandler_Refresh L env' w1 (Some (rt_Token rt)) =
                      (Failure 401 ''Invalid refresh token'' None, w1)))"
  proof (intro impI conjI allI)
    assume nf: "\<not> fails env DeleteUserTokens"
    with t have f: "refresh_tokens (db w1) = filter (\<lambda>r. rt_UserID r \<noteq> u_ID u) (refresh_tokens (db w))"
      by simp
    then show "list_all (\<lambda>rt. rt_UserID rt \<noteq> u_ID u) (refresh_tokens (db w1))"
      by (simp add: list_all_iff)
    fix rt env'
    assume uq: "tokens_unique (db w)"
      and rt: "rt \<in> set (refresh_tokens (db w)) \<and> rt_UserID rt = u_ID u"
    have gone: "rt_Token rt \<notin> rt_Token ` set (refresh_tokens (db w1))"
    proof
      assume "rt_Token rt \<in> rt_Token ` set (refresh_tokens (db w1))"
      then obtain y where y: "y \<in> set (refresh_tokens (db w))" "rt_UserID y \<noteq> u_ID u"
        "rt_Token rt = rt_Token y" using f by auto
      from uq rt y have "rt = y"
        using distinct_token_owner[of "refresh_tokens (db w)" rt y] by (simp add: tokens_unique_def)
      with rt y(2) show False by simp
    qed
    then show "rt_Token rt \<notin> rt_Token ` set (refresh_tokens (db w1))" .
    from gone show "AuthHandler_Refresh L env' w1 (Some (rt_Token rt)) =
                      (Failure 401 ''Invalid refresh token'' None, w1)"
      by (rule Refresh_unknown_token)
  qed
  with g show ?thesis by blast
qed

lemmas UpdateSettings_eval = SettingsHandler_UpdateSettings_def update_dns_def update_allowed_ips_def
  update_logging_def update_admin_password_def SetSetting_def GetUserByUsername_def
  UpdateUserPassword_def UpdateUserAPIToken_def DeleteUserRefreshTokens_def

lemmas UpdateSettings_example_defs = Refresh_example_defs env_user_tokens_delete_fails_def
  new_password_request_def

text \<open>
  The claim as stated fails: when the storage engine fails
  \<^verbatim>\<open>DELETE FROM refresh_tokens WHERE user_id = ?\<close>, the update still answers 200
  "Settings updated" and has changed the password hash, the refresh token issued before
  stays stored, and a refresh with it succeeds.
\<close>

theorem password_change_keeps_tokens_after_failed_delete:
  "fst (SettingsHandler_UpdateSettings lib0 env_user_tokens_delete_fails world_rt
          (Some new_password_request)) = Reply 200 ''Settings updated'' \<and>
   map u_PasswordHash (users (db (snd (SettingsHandler_UpdateSettings lib0
          env_user_tokens_delete_fails world_rt (Some new_password_request))))) = [''bcrypt:new''] \<and>
   rt_UserID old_token_row = u_ID (admin_user api43) \<and>
   refresh_tokens (db (snd (SettingsHandler_UpdateSettings lib0 env_user_tokens_delete_fails world_rt
          (Some new_password_request)))) = [old_token_row] \<and>
   fst (AuthHandler_Refresh lib0 env1
          (snd (SettingsHandler_UpdateSettings lib0 env_user_tokens_delete_fails world_rt
                  (Some new_password_request)))
          (Some ''old-refresh-token'')) =
     Reply 200 (\<lparr>AccessToken = ''signed.access.token'', ExpiresIn = 900,
                  APIToken = GenerateAPIToken lib0 ''new'' ''secret''\<rparr>, ''second-refresh-token'')"
  by (simp add: UpdateSettings_eval Refresh_eval UpdateSettings_example_defs)

theorem password_change_revokes_refresh_tokens_witness:
  "fst (SettingsHandler_UpdateSettings lib0 env0 world_rt (Some new_password_request)) =
     Reply 200 ''Settings updated'' \<and>
   usr_AdminPassword new_password_request = Some ''new'' \<and>
   \<not> fails env0 DeleteUserTokens \<and> tokens_unique (db world_rt) \<and>
   GetUserByUsername False (db world_rt) (AdminUsername (config world_rt)) = Inr (admin_user api43) \<and>
   old_token_row \<in> set (refresh_tokens (db world_rt)) \<and>
   rt_UserID old_token_row = u_ID (admin_user api43) \<and>
   refresh_tokens (db (snd (SettingsHandler_UpdateSettings lib0 env0 world_rt
                              (Some new_password_request)))) = [] \<and>
   fst (AuthHandler_Refresh lib0 env1
          (snd (SettingsHandler_UpdateSettings lib0 env0 world_rt (Some new_password_request)))
          (Some (rt_Token old_token_row))) = Failure 401 ''Invalid refresh token'' None"
proof -
  let ?r = "SettingsHandler_UpdateSettings lib0 env0 world_rt (Some new_password_request)"
  have a: "fst ?r = Reply 200 ''Settings updated''"
    "usr_AdminPassword new_password_request = Some ''new''"
    "\<not> fails env0 DeleteUserTokens" "tokens_unique (db world_rt)"
    "GetUserByUsername False (db world_rt) (AdminUsername (config world_rt)) = Inr (admin_user api43)"
    "old_token_row \<in> set (refresh_tokens (db world_rt))"
    "rt_UserID old_token_row = u_ID (admin_user api43)"
    "refresh_tokens (db (snd ?r)) = []"
    by (simp_all add: UpdateSettings_eval tokens_unique_def UpdateSettings_example_defs)
  have "?r = (Reply 200 ''Settings updated'', snd ?r)"
    using a(1) by (metis prod.collapse)
  from password_change_revokes_refresh_tokens[OF this a(2)] a(3-7)
  have "AuthHandler_Refresh lib0 env1 (snd ?r) (Some (rt_Token old_token_row)) =
      (Failure 401 ''Invalid refresh token'' None, snd ?r)" by auto
  then have b: "fst (AuthHandler_Refresh lib0 env1 (snd ?r) (Some (rt_Token old_token_row))) =
      Failure 401 ''Invalid refresh token'' None" by simp
  from a b show ?thesis by (intro conjI)
qed

section \<open>Login rate limiting\<close>
lemma advance_le_burst: "advance lm r t \<le> of_int (lim_burst lm)"
  by (simp add: advance_def Let_def)

lemma Allow_admitted:
  assumes "Allow lm t = (True, lm1)" "lim_limit lm = Rate r" "r \<noteq> 0"
  shows "lim_tokens lm1 = advance lm r t - 1" "lim_last lm1 = t"
    "lim_limit lm1 = lim_limit lm" "lim_burst lm1 = lim_burst lm"
  using assms by (auto simp: Allow_def Let_def split: if_splits)

lemma Allow_rejects:
  assumes "lim_limit lm = Rate r" "r \<noteq> 0" "advance lm r t < 1"
  shows "Allow lm t = (False, lm)"
  using assms by (simp add: Allow_def Let_def)

lemma advance_after:
  assumes "lim_last lm \<le> t" "0 \<le> r"
  shows "advance lm r t \<le> lim_tokens lm + of_int (t - lim_last lm) / 1000000000 * r"
  using assms by (auto simp: advance_def Let_def)

lemma admit_step:
  assumes a: "Allow lm t = (True, lm1)" "lim_limit lm = Rate r" "0 < r" "t \<le> t'"
  shows "advance lm1 r t' \<le> advance lm r t - 1 + of_int (t' - t) / 1000000000 * r"
proof -
  from a have r0: "r \<noteq> 0" by simp
  note f = Allow_admitted[OF a(1,2) r0]
  from advance_after[of lm1 t' r] f a show ?thesis by simp
qed

lemma Middleware_step:
  "RateLimiter_Middleware rl ip t = (g, rl1) \<Longrightarrow>
     g = gate_of (fst (Allow (limiter_of rl ip) t)) \<and>
     limiter_of rl1 ip = snd (Allow (limiter_of rl ip) t) \<and>
     rl_rate rl1 = rl_rate rl \<and> rl_burst rl1 = rl_burst rl"
  by (auto simp: RateLimiter_Middleware_def getVisitor_def limiter_of_def gate_of_def
      split: option.splits prod.splits)

lemma attempts_allows:
  "fst (attempts rl ip ts) = map gate_of (allows (limiter_of rl ip) ts)"
proof (induction ts arbitrary: rl)
  case Nil
  show ?case by simp
next
  case (Cons t ts)
  obtain g rl1 where m: "RateLimiter_Middleware rl ip t = (g, rl1)"
    by (cases "RateLimiter_Middleware rl ip t")
  obtain ok lm1 where a: "Allow (limiter_of rl ip) t = (ok, lm1)"
    by (cases "Allow (limiter_of rl ip) t")
  obtain gs rl2 where r: "attempts rl1 ip ts = (gs, rl2)" by (cases "attempts rl1 ip ts")
  from Middleware_step[OF m] Cons[of rl1] m a r show ?case by simp
qed

lemma advance_ge:
  assumes "0 \<le> r" "x \<le> lim_tokens lm" "x \<le> of_int (lim_burst lm)"
  shows "x \<le> advance lm r t"
proof -
  define e :: rat where
    "e = of_int (t - (if t < lim_last lm then t else lim_last lm)) / 1000000000 * r"
  have e0: "0 \<le> e"
    unfolding e_def using assms(1) by (intro mult_nonneg_nonneg divide_nonneg_nonneg) auto
  have "advance lm r t =
      (if lim_tokens lm + e > of_int (lim_burst lm) then of_int (lim_burst lm)
       else lim_tokens lm + e)"
    unfolding advance_def Let_def e_def ..
  with assms e0 show ?thesis by auto
qed

lemma Allow_admits:
  assumes "lim_limit lm = Rate r" "r \<noteq> 0" "1 \<le> lim_burst lm" "1 \<le> advance lm r t"
  shows "Allow lm t = (True, lm\<lparr>lim_tokens := advance lm r t - 1, lim_last := t\<rparr>)"
  using assms by (simp add: Allow_def Let_def)

text \<open>One admitted attempt, seen from the next one.\<close>

lemma admitted_then:
  assumes "allows lm (t # t' # ts) = True # bs" "lim_limit lm = Rate r" "0 < r" "t \<le> t'"
  obtains lm1 where "allows lm1 (t' # ts) = bs" "lim_limit lm1 = Rate r"
    "lim_burst lm1 = lim_burst lm" "lim_last lm1 = t"
    "advance lm1 r t' \<le> advance lm r t - 1 + of_int (t' - t) / 1000000000 * r"
proof -
  obtain ok lm1 where a: "Allow lm t = (ok, lm1)" by (cases "Allow lm t")
  with assms(1) have ok: "ok" and rest: "allows lm1 (t' # ts) = bs" by simp_all
  from a ok have a': "Allow lm t = (True, lm1)" by simp
  from assms(3) have r0: "r \<noteq> 0" by simp
  note f = Allow_admitted[OF a' assms(2) r0]
  from admit_step[OF a' assms(2,3,4)] f assms(2) rest show ?thesis
    by (intro that[of lm1]) simp_all
qed

lemma sixth_rejected_limiter:
  assumes lm: "lim_limit lm = Rate (5 / 60)" "lim_burst lm = 5"
    and ord: "ta \<le> tb" "tb \<le> tc" "tc \<le> td" "td \<le> te" "te \<le> tf"
    and span: "tf - ta < 12000000000"
    and adm: "allows lm [ta, tb, tc, td, te, tf] = [True, True, True, True, True, b]"
  shows "\<not> b"
proof -
  let ?r = "5 / 60 :: rat"
  have rpos: "0 < ?r" by simp
  from admitted_then[OF adm lm(1) rpos ord(1)] obtain l1 where
    l1: "allows l1 [tb, tc, td, te, tf] = [True, True, True, True, b]" "lim_limit l1 = Rate ?r"
    "lim_burst l1 = lim_burst lm"
    "advance l1 ?r tb \<le> advance lm ?r ta - 1 + of_int (tb - ta) / 1000000000 * ?r" by blast
  from admitted_then[OF l1(1,2) rpos ord(2)] obtain l2 where
    l2: "allows l2 [tc, td, te, tf] = [True, True, True, b]" "lim_limit l2 = Rate ?r"
    "lim_burst l2 = lim_burst l1"
    "advance l2 ?r tc \<le> advance l1 ?r tb - 1 + of_int (tc - tb) / 1000000000 * ?r" by blast
  from admitted_then[OF l2(1,2) rpos ord(3)] obtain l3 where
    l3: "allows l3 [td, te, tf] = [True, True, b]" "lim_limit l3 = Rate ?r"
    "lim_burst l3 = lim_burst l2"
    "advance l3 ?r td \<le> advance l2 ?r tc - 1 + of_int (td - tc) / 1000000000 * ?r" by blast
  from admitted_then[OF l3(1,2) rpos ord(4)] obtain l4 where
    l4: "allows l4 [te, tf] = [True, b]" "lim_limit l4 = Rate ?r"
    "lim_burst l4 = lim_burst l3"
    "advance l4 ?r te \<le> advance l3 ?r td - 1 + of_int (te - td) / 1000000000 * ?r" by blast
  from admitted_then[OF l4(1,2) rpos ord(5)] obtain l5 where
    l5: "allows l5 [tf] = [b]" "lim_limit l5 = Rate ?r"
    "lim_burst l5 = lim_burst l4"
    "advance l5 ?r tf \<le> advance l4 ?r te - 1 + of_int (tf - te) / 1000000000 * ?r" by blast
  have top: "advance lm ?r ta \<le> 5" using advance_le_burst[of lm ?r ta] lm(2) by simp
  have sum: "advance l5 ?r tf \<le> advance lm ?r ta - 5 + of_int (tf - ta) / 1000000000 * ?r"
    using l1(4) l2(4) l3(4) l4(4) l5(4) by (simp add: field_simps)
  have "of_int (tf - ta) / 1000000000 * ?r < (1 :: rat)"
  proof -
    have "(of_int (tf - ta) :: rat) < 12000000000" using span by linarith
    then show ?thesis by simp
  qed
  with top sum have "advance l5 ?r tf < 1" by linarith
  then have "Allow l5 tf = (False, l5)" using Allow_rejects[OF l5(2)] by simp
  with l5(1) show ?thesis by simp
qed

lemma five_admitted_fresh:
  assumes ord: "ta \<le> tb" "tb \<le> tc" "tc \<le> td" "td \<le> te"
  shows "\<exists>lm5. allows (NewLimiter (Rate (5 / 60)) 5) (ta # tb # tc # td # te # ts) =
           True # True # True # True # True # allows lm5 ts \<and>
           lim_limit lm5 = Rate (5 / 60) \<and> lim_burst lm5 = 5 \<and> lim_last lm5 = te"
proof -
  let ?r = "5 / 60 :: rat"
  let ?l0 = "NewLimiter (Rate ?r) 5"
  have step: "\<And>lm t k. lim_limit lm = Rate ?r \<Longrightarrow> lim_burst lm = 5 \<Longrightarrow> 1 \<le> k \<Longrightarrow> k \<le> 5 \<Longrightarrow>
      of_int k \<le> lim_tokens lm \<Longrightarrow>
      Allow lm t = (True, lm\<lparr>lim_tokens := advance lm ?r t - 1, lim_last := t\<rparr>) \<and>
      of_int (k - 1) \<le> advance lm ?r t - 1"
  proof -
    fix lm :: Limiter and t :: time and k :: int
    assume a: "lim_limit lm = Rate ?r" "lim_burst lm = 5" "1 \<le> k" "k \<le> 5" "of_int k \<le> lim_tokens lm"
    have "(of_int k :: rat) \<le> of_int (lim_burst lm)" using a by simp
    with a have ge: "of_int k \<le> advance lm ?r t" by (intro advance_ge) simp_all
    with a(3) have "1 \<le> advance lm ?r t"
      by (smt (verit) of_int_1_le_iff order_trans)
    with a show "Allow lm t = (True, lm\<lparr>lim_tokens := advance lm ?r t - 1, lim_last := t\<rparr>) \<and>
      of_int (k - 1) \<le> advance lm ?r t - 1"
      using Allow_admits[of lm ?r t] ge by simp
  qed
  define l1 where "l1 = ?l0\<lparr>lim_tokens := advance ?l0 ?r ta - 1, lim_last := ta\<rparr>"
  define l2 where "l2 = l1\<lparr>lim_tokens := advance l1 ?r tb - 1, lim_last := tb\<rparr>"
  define l3 where "l3 = l2\<lparr>lim_tokens := advance l2 ?r tc - 1, lim_last := tc\<rparr>"
  define l4 where "l4 = l3\<lparr>lim_tokens := advance l3 ?r td - 1, lim_last := td\<rparr>"
  define l5 where "l5 = l4\<lparr>lim_tokens := advance l4 ?r te - 1, lim_last := te\<rparr>"
  have s0: "Allow ?l0 ta = (True, l1)" "of_int 4 \<le> lim_tokens l1"
    using step[of ?l0 5 ta] by (simp_all add: l1_def NewLimiter_def)
  have p1: "lim_limit l1 = Rate ?r" "lim_burst l1 = 5" by (simp_all add: l1_def NewLimiter_def)
  have s1: "Allow l1 tb = (True, l2)" "of_int 3 \<le> lim_tokens l2"
    using step[OF p1, of 4 tb] s0(2) by (simp_all add: l2_def)
  have p2: "lim_limit l2 = Rate ?r" "lim_burst l2 = 5" using p1 by (simp_all add: l2_def)
  have s2: "Allow l2 tc = (True, l3)" "of_int 2 \<le> lim_tokens l3"
    using step[OF p2, of 3 tc] s1(2) by (simp_all add: l3_def)
  have p3: "lim_limit l3 = Rate ?r" "lim_burst l3 = 5" using p2 by (simp_all add: l3_def)
  have s3: "Allow l3 td = (True, l4)" "of_int 1 \<le> lim_tokens l4"
    using step[OF p3, of 2 td] s2(2) by (simp_all add: l4_def)
  have p4: "lim_limit l4 = Rate ?r" "lim_burst l4 = 5" using p3 by (simp_all add: l4_def)
  have s4: "Allow l4 te = (True, l5)"
    using step[OF p4, of 1 te] s3(2) by (simp_all add: l5_def)
  have p5: "lim_limit l5 = Rate ?r" "lim_burst l5 = 5" "lim_last l5 = te"
    using p4 by (simp_all add: l5_def)
  from s0(1) s1(1) s2(1) s3(1) s4 p5 show ?thesis
    by (intro exI[of _ l5]) simp
qed

lemma gate_of_Proceed: "gate_of b = Proceed \<longleftrightarrow> b"
  by (simp add: gate_of_def)

lemma cleanup_keeps_recent:
  "visitors rl ip = Some v \<Longrightarrow> t - lastSeen v \<le> 180000000000 \<Longrightarrow>
     limiter_of (cleanupVisitors rl t) ip = limiter_of rl ip"
  by (simp add: cleanupVisitors_def limiter_of_def)

lemma Middleware_other_source:
  "ip' \<noteq> ip \<Longrightarrow> limiter_of (snd (RateLimiter_Middleware rl ip' t)) ip = limiter_of rl ip"
  by (auto simp: RateLimiter_Middleware_def getVisitor_def limiter_of_def
      split: option.splits prod.splits)

text \<open>
  Claim C8, as amended. With the limiter set to 5 requests per 60 seconds (a bucket of 5
  tokens that gains one token every 12 seconds), six attempts of one source at instants
  in order, the sixth less than 12 seconds after the first: from a source the limiter
  has not seen, the first five are admitted and the sixth is rejected with 429 "Too many
  requests"; and in any state of the limiter, if the first five are admitted the sixth is
  rejected. A sixth attempt later in the 60-second window can be admitted, see
  \<open>sixth_login_attempt_admitted_after_refill\<close>.
\<close>

theorem sixth_login_attempt_rejected_before_refill:
  assumes ord: "ta \<le> tb" "tb \<le> tc" "tc \<le> td" "td \<le> te" "te \<le> tf"
    and span: "tf - ta < 12000000000"
  shows "fst (attempts (NewRateLimiter 5 60) ip [ta, tb, tc, td, te, tf]) =
           [Proceed, Proceed, Proceed, Proceed, Proceed, Rejected 429 ''Too many requests''] \<and>
         (\<forall>rl g. login_limit rl ip \<and>
                 fst (attempts rl ip [ta, tb, tc, td, te, tf]) =
                   [Proceed, Proceed, Proceed, Proceed, Proceed, g] \<longrightarrow>
                 g = Rejected 429 ''Too many requests'')"
proof
  have l0: "limiter_of (NewRateLimiter 5 60) ip = NewLimiter (Rate (5 / 60)) 5"
    by (simp add: limiter_of_def NewRateLimiter_def)
  from five_admitted_fresh[OF ord(1-4), of "[tf]"] obtain lm5 where
    five: "allows (NewLimiter (Rate (5 / 60)) 5) [ta, tb, tc, td, te, tf] =
             True # True # True # True # True # allows lm5 [tf]" by blast
  obtain b where b: "allows lm5 [tf] = [b]" by (cases "Allow lm5 tf") simp
  have adm: "allows (NewLimiter (Rate (5 / 60)) 5) [ta, tb, tc, td, te, tf] =
      [True, True, True, True, True, b]" using five b by simp
  have "\<not> b"
    by (rule sixth_rejected_limiter[OF _ _ ord span adm]) (simp_all add: NewLimiter_def)
  have "fst (attempts (NewRateLimiter 5 60) ip [ta, tb, tc, td, te, tf]) =
      map gate_of (allows (limiter_of (NewRateLimiter 5 60) ip) [ta, tb, tc, td, te, tf])"
    by (rule attempts_allows)
  also have "\<dots> = map gate_of [True, True, True, True, True, b]"
    unfolding l0 adm ..
  finally show "fst (attempts (NewRateLimiter 5 60) ip [ta, tb, tc, td, te, tf]) =
           [Proceed, Proceed, Proceed, Proceed, Proceed, Rejected 429 ''Too many requests'']"
    using \<open>\<not> b\<close> by (simp add: gate_of_def)
next
  show "\<forall>rl g. login_limit rl ip \<and>
                 fst (attempts rl ip [ta, tb, tc, td, te, tf]) =
                   [Proceed, Proceed, Proceed, Proceed, Proceed, g] \<longrightarrow>
                 g = Rejected 429 ''Too many requests''"
  proof (intro allI impI)
    fix rl g
    assume a: "login_limit rl ip \<and>
                 fst (attempts rl ip [ta, tb, tc, td, te, tf]) =
                   [Proceed, Proceed, Proceed, Proceed, Proceed, g]"
    then have m: "map gate_of (allows (limiter_of rl ip) [ta, tb, tc, td, te, tf]) =
        [Proceed, Proceed, Proceed, Proceed, Proceed, g]"
      unfolding attempts_allows by blast
    then obtain b where bs: "allows (limiter_of rl ip) [ta, tb, tc, td, te, tf] =
        [True, True, True, True, True, b]" and g: "g = gate_of b"
      by (auto simp: map_eq_Cons_conv gate_of_Proceed)
    from a have "lim_limit (limiter_of rl ip) = Rate (5 / 60)" "lim_burst (limiter_of rl ip) = 5"
      by (simp_all add: login_limit_def)
    from sixth_rejected_limiter[OF this ord span bs] g
    show "g = Rejected 429 ''Too many requests''" by (simp add: gate_of_def)
  qed
qed

lemmas limiter_eval = RateLimiter_Middleware_def getVisitor_def NewRateLimiter_def NewLimiter_def
  Allow_def advance_def Let_def

text \<open>
  The claim as stated fails: five attempts in the first four seconds and a sixth 34
  seconds after the first, all within one window of 60 seconds, are all admitted, since
  the bucket has gained more than one token by then.
\<close>

theorem sixth_login_attempt_admitted_after_refill:
  "fst (attempts (NewRateLimiter 5 60) ''203.0.113.7''
          [0, 1000000000, 2000000000, 3000000000, 4000000000, 34000000000]) =
     [Proceed, Proceed, Proceed, Proceed, Proceed, Proceed] \<and>
   (34000000000 :: int) - 0 < 60 * 1000000000"
  by (simp add: limiter_eval)

theorem sixth_login_attempt_rejected_before_refill_witness:
  "(0::int) \<le> 1000000000 \<and> (1000000000::int) \<le> 2000000000 \<and> (2000000000::int) \<le> 3000000000 \<and>
   (3000000000::int) \<le> 4000000000 \<and> (4000000000::int) \<le> 11000000000 \<and>
   (11000000000::int) - 0 < 12000000000 \<and>
   fst (attempts (NewRateLimiter 5 60) ''203.0.113.7''
          [0, 1000000000, 2000000000, 3000000000, 4000000000, 11000000000]) =
     [Proceed, Proceed, Proceed, Proceed, Proceed, Rejected 429 ''Too many requests'']"
  using sixth_login_attempt_rejected_before_refill[of 0 1000000000 2000000000 3000000000
      4000000000 11000000000 "''203.0.113.7''"]
  by simp


end
